theory Spec2Isabelle
  imports Complex_Main
begin

section \<open>Values and collaborators of the discovery script\<close>

text \<open>
  The script \<^verbatim>\<open>main.py\<close> is a sequential pipeline over three collaborators that are
  not part of the repository: the YouTube client object, the system clock and the pandas
  library. Each of them is a parameter of the model; what the script itself does with
  their results is translated function by function.

  Exceptions are values, each with its text. The client's \<^verbatim>\<open>execute()\<close> raises
  \<^verbatim>\<open>HttpError\<close> or some other \<^verbatim>\<open>Exception\<close>; \<^verbatim>\<open>main\<close> raises \<^verbatim>\<open>RuntimeError\<close>; reading an
  entry of a value that is not an object raises \<^verbatim>\<open>AttributeError\<close>, iterating over a
  value that is not a list \<^verbatim>\<open>TypeError\<close>; pandas raises \<^verbatim>\<open>TypeError\<close>, \<^verbatim>\<open>ValueError\<close> and
  \<^verbatim>\<open>IntCastingNaNError\<close>.
\<close>

datatype exn =
    HttpError string
  | OtherException string
  | RuntimeError string
  | AttributeError string
  | TypeError string
  | ValueError string
  | IntCastingNaNError string

text \<open>
  An entry of a JSON object that the script expects to be an object or a list: it is
  absent, or present with a value of the expected kind, or present with a value on which
  the script's next access raises. For \<^verbatim>\<open>"snippet"\<close> and \<^verbatim>\<open>"statistics"\<close> that is every
  value that is not an object (\<^verbatim>\<open>null\<close>, a number, a text, a list): it has no \<^verbatim>\<open>get\<close>.
  For \<^verbatim>\<open>"items"\<close> it is a value that cannot be iterated (\<^verbatim>\<open>null\<close>, a number); a text or
  an object there is iterated like a list of its characters or keys, none of which is an
  object.
\<close>

datatype 'a entry = Absent | Malformed | Present 'a

text \<open>
  A response of the client is a JSON object of which the script reads only the entry
  \<^verbatim>\<open>"items"\<close>; an element of that list is an object or not; of an item the script reads
  only \<^verbatim>\<open>"id"\<close>, \<^verbatim>\<open>"snippet"\<close> and \<^verbatim>\<open>"statistics"\<close>, the latter two holding text entries
  when they are objects. The texts are typed by the script's annotations (a channel ID is
  a \<^verbatim>\<open>str\<close>) and the service's schema: a text entry may be absent or hold any text, but
  no value of another JSON type. A response that is not an object counts as a call that
  raises \<^verbatim>\<open>AttributeError\<close>, which the script's first access to it does inside the same
  \<^verbatim>\<open>try\<close>.
\<close>

type_synonym str_dict = "string \<rightharpoonup> string"

datatype item =
    NotAnObject
  | Item (item_id: "string option") (snippet: "str_dict entry") (statistics: "str_dict entry")

record response =
  items :: "item list entry"

text \<open>
  The client returned by \<^verbatim>\<open>build("youtube", "v3", developerKey=api_key)\<close>:
  \<open>search_execute q after\<close> is \<^verbatim>\<open>search().list(q=q, type="video", order="date",
  publishedAfter=after, part="snippet", maxResults=50).execute()\<close> and
  \<open>channels_execute ids\<close> is \<^verbatim>\<open>channels().list(id=ids,
  part="snippet,statistics").execute()\<close>. A call answers with a response or raises; its
  outcome is a function of its arguments.
\<close>

record client =
  search_execute :: "string \<Rightarrow> string \<Rightarrow> exn + response"
  channels_execute :: "string \<Rightarrow> exn + response"

text \<open>A \<^verbatim>\<open>datetime\<close> object, by its fields.\<close>

record datetime =
  dt_year :: nat
  dt_month :: nat
  dt_day :: nat
  dt_hour :: nat
  dt_minute :: nat
  dt_second :: nat
  dt_microsecond :: nat

text \<open>
  A cell of a data frame. \<open>Timestamp\<close> and \<open>Timedelta\<close> count nanoseconds, as pandas does;
  \<open>NaT\<close> and \<open>NaN\<close> are the missing values of the time and the number columns. A
  \<open>FloatV\<close> holds the rational value of a finite \<^verbatim>\<open>float64\<close>.
\<close>

datatype cell =
    NoneV
  | StrV string
  | IntV int
  | Timestamp int
  | Timedelta int
  | NaT
  | FloatV rat
  | NaN

text \<open>
  The dictionary that \<^verbatim>\<open>get_channel_details\<close> builds for one item: a literal with seven
  fixed keys. \<^verbatim>\<open>item.get("id")\<close> may be \<^verbatim>\<open>None\<close>; a count is the text the service sent
  or the integer default.
\<close>

datatype stat = StatStr string | StatInt int

record channel =
  channel_id :: "string option"
  channel_title :: string
  published_at :: string
  subscriber_count :: stat
  video_count :: stat
  view_count :: stat
  data_retrieved_at :: string

text \<open>
  What pandas returns for a whole column. \<^verbatim>\<open>pd.to_datetime(column, errors="coerce")\<close>
  yields a datetime column: it is time-zone aware or naive as a whole, and each of its
  cells is a timestamp or \<open>NaT\<close> (\<open>None\<close>). How a cell comes out may depend on the other
  cells of the column, from whose first text pandas takes the format. A cell of
  \<^verbatim>\<open>pd.to_numeric(column, errors="coerce")\<close> is a finite number, an infinity or \<open>NaN\<close>.
\<close>

record dt_column =
  tz_aware :: bool
  stamps :: "int option list"

datatype number = Num rat | PosInf | NegInf | NotNum

text \<open>
  What the process reads from outside the script. \<open>utcnow k\<close> is the result of the
  \<open>k\<close>-th call of \<^verbatim>\<open>datetime.utcnow()\<close> in the run; \<open>minus_hours d h\<close> is
  \<^verbatim>\<open>d - timedelta(hours=h)\<close>; \<open>list_of_set\<close> is the order in which \<^verbatim>\<open>list(s)\<close> enumerates
  a Python set. \<open>to_datetime\<close> and \<open>to_numeric\<close> are the two pandas parsers on a column;
  the first may also raise, with the text given. \<open>float_seconds d\<close> is the \<^verbatim>\<open>float64\<close>
  that \<^verbatim>\<open>total_seconds()\<close> gives for a difference of \<open>d\<close> nanoseconds and \<open>float_div\<close> is
  the division of \<^verbatim>\<open>float64\<close>: no rounding is assumed of either. \<open>int64_cast\<close> is what
  \<^verbatim>\<open>astype("int64")\<close> makes of a finite number outside the range of \<^verbatim>\<open>int64\<close>. Building
  the client, sleeping and writing the file are taken to succeed.
\<close>

record env =
  getenv_api_key :: "string option"
  build :: "string \<Rightarrow> client"
  utcnow :: "nat \<Rightarrow> datetime"
  minus_hours :: "datetime \<Rightarrow> int \<Rightarrow> datetime"
  list_of_set :: "string set \<Rightarrow> string list"
  to_datetime :: "cell list \<Rightarrow> string + dt_column"
  float_seconds :: "int \<Rightarrow> rat"
  float_div :: "rat \<Rightarrow> rat \<Rightarrow> rat"
  to_numeric :: "cell list \<Rightarrow> number list"
  int64_cast :: "rat \<Rightarrow> int"

text \<open>
  The effects of a run, in order. A \<^verbatim>\<open>print\<close> is recorded by its template and the values
  the f-string interpolates.
\<close>

datatype message =
    SearchHttpError string exn
  | SearchUnexpectedError string exn
  | DetailsHttpError exn
  | DetailsUnexpectedError exn
  | NoChannelData
  | NoChannelsYounger rat
  | Saved nat string

datatype event =
    SearchList string string
  | ChannelsList "string list"
  | Sleep
  | Print message
  | ToCsv string "string list" "cell list list"

text \<open>
  \<open>ChannelsList batch\<close> records the call \<^verbatim>\<open>channels().list(id=','.join(batch), ...)\<close>
  together with the batch it was built from; \<open>ToCsv name header rows\<close> records
  \<^verbatim>\<open>df_new.to_csv(name, index=False)\<close>.
\<close>

record world =
  clock :: nat
  events :: "event list"

definition emit :: "event \<Rightarrow> world \<Rightarrow> world" where
  "emit e w = w\<lparr>events := events w @ [e]\<rparr>"

definition utcnow_read :: "env \<Rightarrow> world \<Rightarrow> datetime \<times> world" where
  "utcnow_read env w = (utcnow env (clock w), w\<lparr>clock := Suc (clock w)\<rparr>)"

section \<open>Library functions the script calls\<close>

text \<open>\<^verbatim>\<open>d.get(key, default)\<close> on an entry that may be absent.\<close>

definition get_or :: "'a option \<Rightarrow> 'a \<Rightarrow> 'a" where
  "get_or v d = (case v of None \<Rightarrow> d | Some x \<Rightarrow> x)"

text \<open>\<^verbatim>\<open>sep.join(xs)\<close>.\<close>

fun join :: "string \<Rightarrow> string list \<Rightarrow> string" where
  "join sep [] = []"
| "join sep [x] = x"
| "join sep (x # y # ys) = x @ sep @ join sep (y # ys)"

text \<open>Decimal digits, zero-padded to a fixed width.\<close>

definition digit :: "nat \<Rightarrow> char" where
  "digit n = ''0123456789'' ! (n mod 10)"

definition pad2 :: "nat \<Rightarrow> string" where
  "pad2 n = [digit (n div 10), digit n]"

definition pad4 :: "nat \<Rightarrow> string" where
  "pad4 n = [digit (n div 1000), digit (n div 100), digit (n div 10), digit n]"

definition pad6 :: "nat \<Rightarrow> string" where
  "pad6 n = [digit (n div 100000), digit (n div 10000), digit (n div 1000),
             digit (n div 100), digit (n div 10), digit n]"

text \<open>\<^verbatim>\<open>d.strftime("%Y-%m-%d")\<close>, for the four-digit years of the clock.\<close>

definition strftime_Ymd :: "datetime \<Rightarrow> string" where
  "strftime_Ymd d = pad4 (dt_year d) @ ''-'' @ pad2 (dt_month d) @ ''-'' @ pad2 (dt_day d)"

text \<open>\<^verbatim>\<open>d.isoformat()\<close>: the fraction is printed only when it is not zero.\<close>

definition isoformat :: "datetime \<Rightarrow> string" where
  "isoformat d =
     strftime_Ymd d @ ''T'' @ pad2 (dt_hour d) @ '':'' @ pad2 (dt_minute d) @ '':'' @
     pad2 (dt_second d) @
     (if dt_microsecond d = 0 then [] else ''.'' @ pad6 (dt_microsecond d))"

text \<open>
  \<^verbatim>\<open>item.get(name, {})\<close> as the object it yields when the entry is absent or an object.
  On any other value the \<^verbatim>\<open>.get\<close> that follows raises.
\<close>

definition dict_of :: "str_dict entry \<Rightarrow> str_dict" where
  "dict_of d = (case d of Present m \<Rightarrow> m | _ \<Rightarrow> Map.empty)"

definition malformed :: "'a entry \<Rightarrow> bool" where
  "malformed d = (case d of Malformed \<Rightarrow> True | _ \<Rightarrow> False)"

definition no_get :: exn where
  "no_get = AttributeError ''object has no attribute get''"

definition not_iterable :: exn where
  "not_iterable = TypeError ''object is not iterable''"

section \<open>Discovery: \<^verbatim>\<open>search_new_videos\<close>\<close>

text \<open>
  The loop over the items of a search response. An item contributes its
  \<^verbatim>\<open>snippet.channelId\<close> when that is present and truthy, that is, not the empty text. An
  element that is not an object, or whose snippet is not one, raises; the IDs appended
  before stay in the list.
\<close>

fun search_items :: "item list \<Rightarrow> string list \<Rightarrow> exn option \<times> string list" where
  "search_items [] channel_ids = (None, channel_ids)"
| "search_items (NotAnObject # its) channel_ids = (Some no_get, channel_ids)"
| "search_items (Item i sn st # its) channel_ids =
     (if malformed sn then (Some no_get, channel_ids)
      else
        case dict_of sn ''channelId'' of
          None \<Rightarrow> search_items its channel_ids
        | Some cid \<Rightarrow>
            if cid \<noteq> [] then search_items its (channel_ids @ [cid])
            else search_items its channel_ids)"

text \<open>
  The two handlers of \<^verbatim>\<open>search_new_videos\<close>: each prints and falls through to the
  \<^verbatim>\<open>return channel_ids\<close>.
\<close>

definition search_handler :: "string \<Rightarrow> exn \<Rightarrow> world \<Rightarrow> world" where
  "search_handler query e w =
     emit (Print (case e of HttpError m \<Rightarrow> SearchHttpError query e
                          | _ \<Rightarrow> SearchUnexpectedError query e)) w"

definition search_new_videos ::
  "client \<Rightarrow> string \<Rightarrow> string \<Rightarrow> world \<Rightarrow> string list \<times> world" where
  "search_new_videos youtube query published_after w =
     (let w1 = emit (SearchList query published_after) w in
      case search_execute youtube query published_after of
        Inl e \<Rightarrow> ([], search_handler query e w1)
      | Inr search_response \<Rightarrow>
          (case items search_response of
             Absent \<Rightarrow> ([], w1)
           | Malformed \<Rightarrow> ([], search_handler query not_iterable w1)
           | Present its \<Rightarrow>
               (case search_items its [] of
                  (None, channel_ids) \<Rightarrow> (channel_ids, w1)
                | (Some e, channel_ids) \<Rightarrow> (channel_ids, search_handler query e w1))))"

section \<open>Enrichment: \<^verbatim>\<open>get_channel_details\<close>\<close>

text \<open>
  \<^verbatim>\<open>stats.get("subscriberCount", 0)\<close>: the text the service sent, or the integer zero.
\<close>

definition stat_get :: "str_dict \<Rightarrow> string \<Rightarrow> stat" where
  "stat_get stats k = (case stats k of None \<Rightarrow> StatInt 0 | Some s \<Rightarrow> StatStr s)"

text \<open>
  The loop over the items of a channels response. The dictionary literal reads the
  snippet and the statistics before it reads the clock, so an element that is not an
  object, or whose snippet or statistics is not one, raises with the clock untouched;
  the dictionaries appended before stay in the list.
\<close>

fun details_items ::
  "env \<Rightarrow> item list \<Rightarrow> channel list \<Rightarrow> world \<Rightarrow> (exn option \<times> channel list) \<times> world" where
  "details_items env [] data w = ((None, data), w)"
| "details_items env (NotAnObject # its) data w = ((Some no_get, data), w)"
| "details_items env (Item i sn st # its) data w =
     (if malformed sn \<or> malformed st then ((Some no_get, data), w)
      else
        let snip = dict_of sn;
            stats = dict_of st;
            (now, w1) = utcnow_read env w
        in details_items env its
             (data @ [\<lparr>channel_id = i,
                       channel_title = get_or (snip ''title'') [],
                       published_at = get_or (snip ''publishedAt'') [],
                       subscriber_count = stat_get stats ''subscriberCount'',
                       video_count = stat_get stats ''videoCount'',
                       view_count = stat_get stats ''viewCount'',
                       data_retrieved_at = isoformat now @ ''Z''\<rparr>])
             w1)"

definition details_handler :: "exn \<Rightarrow> world \<Rightarrow> world" where
  "details_handler e w =
     emit (Print (case e of HttpError m \<Rightarrow> DetailsHttpError e
                          | _ \<Rightarrow> DetailsUnexpectedError e)) w"

definition get_channel_details ::
  "env \<Rightarrow> client \<Rightarrow> string list \<Rightarrow> world \<Rightarrow> channel list \<times> world" where
  "get_channel_details env youtube channel_ids w =
     (if channel_ids = [] then ([], w)
      else
        let w1 = emit (ChannelsList channel_ids) w in
        case channels_execute youtube (join '','' channel_ids) of
          Inl e \<Rightarrow> ([], details_handler e w1)
        | Inr resp \<Rightarrow>
            (case items resp of
               Absent \<Rightarrow> ([], w1)
             | Malformed \<Rightarrow> ([], details_handler not_iterable w1)
             | Present its \<Rightarrow>
                 (case details_items env its [] w1 of
                    ((None, data), w2) \<Rightarrow> (data, w2)
                  | ((Some e, data), w2) \<Rightarrow> (data, details_handler e w2))))"

section \<open>The pipeline: \<^verbatim>\<open>collect_new_channels\<close>\<close>

text \<open>
  The discovery loop: one search per query, the IDs added to the set, a pause after each.
\<close>

fun discover ::
  "client \<Rightarrow> string \<Rightarrow> string list \<Rightarrow> string set \<Rightarrow> world \<Rightarrow> string set \<times> world" where
  "discover youtube published_after [] all_channel_ids w = (all_channel_ids, w)"
| "discover youtube published_after (query # queries) all_channel_ids w =
     (let (channel_ids, w1) = search_new_videos youtube query published_after w
      in discover youtube published_after queries
           (all_channel_ids \<union> set channel_ids) (emit Sleep w1))"

text \<open>
  The enrichment loop \<^verbatim>\<open>for i in range(0, len(channel_id_list), 50)\<close>. The slice
  \<^verbatim>\<open>channel_id_list[i:i + 50]\<close> is \<open>take 50 (drop i channel_id_list)\<close>.
\<close>

function enrich ::
  "env \<Rightarrow> client \<Rightarrow> string list \<Rightarrow> nat \<Rightarrow> channel list \<Rightarrow> world \<Rightarrow> channel list \<times> world" where
  "enrich env youtube channel_id_list i all_channel_data w =
     (if i < length channel_id_list then
        let batch = take 50 (drop i channel_id_list);
            (details, w1) = get_channel_details env youtube batch w
        in enrich env youtube channel_id_list (i + 50) (all_channel_data @ details)
             (emit Sleep w1)
      else (all_channel_data, w))"
  by pat_completeness auto
termination
  by (relation "measure (\<lambda>(env, youtube, ids, i, d, w). length ids - i)") auto

declare enrich.simps [simp del]

text \<open>
  \<^verbatim>\<open>collect_new_channels\<close> in its two phases, as its comments divide it: the discovery of
  the ID set, and the enrichment of its enumeration.
\<close>

definition published_after_of :: "env \<Rightarrow> datetime \<Rightarrow> int \<Rightarrow> string" where
  "published_after_of env now window_hours =
     isoformat (minus_hours env now window_hours) @ ''Z''"

definition discovery ::
  "env \<Rightarrow> client \<Rightarrow> string list \<Rightarrow> int \<Rightarrow> world \<Rightarrow> string set \<times> world" where
  "discovery env youtube queries window_hours w =
     (let (now, w1) = utcnow_read env w;
          published_after = published_after_of env now window_hours
      in discover youtube published_after queries {} w1)"

definition collect_new_channels ::
  "env \<Rightarrow> client \<Rightarrow> string list \<Rightarrow> int \<Rightarrow> world \<Rightarrow> channel list \<times> world" where
  "collect_new_channels env youtube queries window_hours w =
     (let (all_channel_ids, w2) = discovery env youtube queries window_hours w;
          channel_id_list = list_of_set env all_channel_ids
      in enrich env youtube channel_id_list 0 [] w2)"

section \<open>Filtering and saving: \<^verbatim>\<open>filter_and_save_channels\<close>\<close>

text \<open>
  A data frame is the list of its rows; a row lists its cells by column, in column order.
  \<^verbatim>\<open>df[k]\<close> reads a column; the assignment \<^verbatim>\<open>df[k] = column\<close> overwrites the cells of an
  existing column and appends a new column at the end.
\<close>

type_synonym row = "(string \<times> cell) list"
type_synonym frame = "row list"

definition stat_cell :: "stat \<Rightarrow> cell" where
  "stat_cell v = (case v of StatStr s \<Rightarrow> StrV s | StatInt n \<Rightarrow> IntV n)"

definition DataFrame :: "channel list \<Rightarrow> frame" where
  "DataFrame data =
     map (\<lambda>c. [(''channel_id'', case channel_id c of None \<Rightarrow> NoneV | Some s \<Rightarrow> StrV s),
               (''channel_title'', StrV (channel_title c)),
               (''published_at'', StrV (published_at c)),
               (''subscriber_count'', stat_cell (subscriber_count c)),
               (''video_count'', stat_cell (video_count c)),
               (''view_count'', stat_cell (view_count c)),
               (''data_retrieved_at'', StrV (data_retrieved_at c))]) data"

definition getitem :: "row \<Rightarrow> string \<Rightarrow> cell" where
  "getitem r k = (case map_of r k of None \<Rightarrow> NaN | Some v \<Rightarrow> v)"

fun setitem :: "string \<Rightarrow> cell \<Rightarrow> row \<Rightarrow> row" where
  "setitem k v [] = [(k, v)]"
| "setitem k v (p # ps) = (if fst p = k then (k, v) # ps else p # setitem k v ps)"

definition column :: "string \<Rightarrow> frame \<Rightarrow> cell list" where
  "column k df = map (\<lambda>r. getitem r k) df"

definition assign :: "string \<Rightarrow> cell list \<Rightarrow> frame \<Rightarrow> frame" where
  "assign k vs df = map (\<lambda>(r, v). setitem k v r) (zip df vs)"

definition columns :: "frame \<Rightarrow> string list" where
  "columns df = (case df of [] \<Rightarrow> [] | r # _ \<Rightarrow> map fst r)"

text \<open>
  A parser returns one cell per cell of its column; the model reads the first \<open>n\<close> cells
  of what the parameter gives for a column of length \<open>n\<close>.
\<close>

definition fit :: "'a \<Rightarrow> nat \<Rightarrow> 'a list \<Rightarrow> 'a list" where
  "fit d n xs = take n xs @ replicate (n - length xs) d"

definition datetime_cells :: "nat \<Rightarrow> dt_column \<Rightarrow> cell list" where
  "datetime_cells n col =
     map (\<lambda>s. case s of None \<Rightarrow> NaT | Some t \<Rightarrow> Timestamp t) (fit None n (stamps col))"

text \<open>
  The operations of line 245 and of the mask of line 247, cell by cell. They are applied
  to two datetime columns of the same kind: when one column is time-zone aware and the
  other is not, the subtraction raises for the whole column before any cell is computed
  (see \<open>with_age\<close> below). A missing value stays missing through the subtraction,
  \<^verbatim>\<open>total_seconds\<close> and the division, and compares false. \<^verbatim>\<open>total_seconds\<close> and the
  division are the \<^verbatim>\<open>float64\<close> operations of the environment.
\<close>

definition sub_cell :: "cell \<Rightarrow> cell \<Rightarrow> cell" where
  "sub_cell a b =
     (case a of
        Timestamp x \<Rightarrow> (case b of Timestamp y \<Rightarrow> Timedelta (x - y) | _ \<Rightarrow> NaT)
      | _ \<Rightarrow> NaT)"

definition total_seconds :: "env \<Rightarrow> cell \<Rightarrow> cell" where
  "total_seconds env v = (case v of Timedelta d \<Rightarrow> FloatV (float_seconds env d) | _ \<Rightarrow> NaN)"

definition div_cell :: "env \<Rightarrow> cell \<Rightarrow> rat \<Rightarrow> cell" where
  "div_cell env v k = (case v of FloatV x \<Rightarrow> FloatV (float_div env x k) | _ \<Rightarrow> NaN)"

definition le_cell :: "cell \<Rightarrow> rat \<Rightarrow> bool" where
  "le_cell v m = (case v of FloatV x \<Rightarrow> x \<le> m | _ \<Rightarrow> False)"

definition age_of :: "env \<Rightarrow> row \<Rightarrow> cell" where
  "age_of env r =
     div_cell env
       (total_seconds env
          (sub_cell (getitem r ''data_retrieved_at_dt'') (getitem r ''published_at_dt'')))
       (24 * 3600)"

definition tz_mismatch :: exn where
  "tz_mismatch = TypeError ''Cannot subtract tz-naive and tz-aware datetime-like objects''"

text \<open>
  Lines 242 to 245: the two parsed columns and the age column. The subtraction of a
  time-zone naive column and an aware one raises.
\<close>

definition with_age :: "env \<Rightarrow> frame \<Rightarrow> exn + frame" where
  "with_age env df =
     (case to_datetime env (column ''published_at'' df) of
        Inl msg \<Rightarrow> Inl (ValueError msg)
      | Inr pub \<Rightarrow>
          (let df1 = assign ''published_at_dt'' (datetime_cells (length df) pub) df in
           (case to_datetime env (column ''data_retrieved_at'' df1) of
              Inl msg \<Rightarrow> Inl (ValueError msg)
            | Inr ret \<Rightarrow>
                (let df2 = assign ''data_retrieved_at_dt'' (datetime_cells (length df) ret) df1
                 in if tz_aware ret \<noteq> tz_aware pub then Inl tz_mismatch
                    else Inr (assign ''channel_age_days'' (map (age_of env) df2) df2)))))"

text \<open>
  Line 250 on one column: \<^verbatim>\<open>pd.to_numeric(..., errors="coerce")\<close>, then \<^verbatim>\<open>fillna(0)\<close>, which
  replaces \<open>NaN\<close> only, then \<^verbatim>\<open>astype("int64")\<close>, which raises on a value that is not
  finite, drops the fraction of a number towards zero and gives some \<^verbatim>\<open>int64\<close> for a
  number outside its range.
\<close>

definition fillna0 :: "number \<Rightarrow> number" where
  "fillna0 v = (case v of NotNum \<Rightarrow> Num 0 | _ \<Rightarrow> v)"

definition non_finite :: exn where
  "non_finite =
     IntCastingNaNError ''Cannot convert non-finite values (NA or inf) to integer''"

definition wrap64 :: "int \<Rightarrow> int" where
  "wrap64 x = (x + 2 ^ 63) mod 2 ^ 64 - 2 ^ 63"

definition trunc :: "rat \<Rightarrow> int" where
  "trunc q = (if 0 \<le> q then \<lfloor>q\<rfloor> else \<lceil>q\<rceil>)"

definition astype_int64 :: "env \<Rightarrow> number \<Rightarrow> exn + cell" where
  "astype_int64 env v =
     (case v of
        Num q \<Rightarrow>
          Inr (IntV (if - (2 ^ 63) \<le> trunc q \<and> trunc q < 2 ^ 63 then trunc q
                     else wrap64 (int64_cast env q)))
      | _ \<Rightarrow> Inl non_finite)"

fun all_cells :: "(exn + cell) list \<Rightarrow> exn + cell list" where
  "all_cells [] = Inr []"
| "all_cells (Inl e # xs) = Inl e"
| "all_cells (Inr v # xs) = (case all_cells xs of Inl e \<Rightarrow> Inl e | Inr vs \<Rightarrow> Inr (v # vs))"

definition to_int_column :: "env \<Rightarrow> cell list \<Rightarrow> exn + cell list" where
  "to_int_column env cs =
     all_cells (map (\<lambda>v. astype_int64 env (fillna0 v))
                  (fit NotNum (length cs) (to_numeric env cs)))"

definition count_columns :: "string list" where
  "count_columns = [''subscriber_count'', ''video_count'', ''view_count'']"

fun convert_columns :: "env \<Rightarrow> string list \<Rightarrow> frame \<Rightarrow> exn + frame" where
  "convert_columns env [] df = Inr df"
| "convert_columns env (col # cols) df =
     (case to_int_column env (column col df) of
        Inl e \<Rightarrow> Inl e
      | Inr vs \<Rightarrow> convert_columns env cols (assign col vs df))"

text \<open>
  Lines 240 to 250: the frame \<^verbatim>\<open>df_new\<close>, the rows that pass
  \<^verbatim>\<open>df["channel_age_days"] <= max_age_days\<close> with their counts converted, or the exception
  raised on the way.
\<close>

definition df_new :: "env \<Rightarrow> channel list \<Rightarrow> rat \<Rightarrow> exn + frame" where
  "df_new env all_channel_data max_age_days =
     (case with_age env (DataFrame all_channel_data) of
        Inl e \<Rightarrow> Inl e
      | Inr df \<Rightarrow>
          convert_columns env count_columns
            (filter (\<lambda>r. le_cell (getitem r ''channel_age_days'') max_age_days) df))"

text \<open>
  Nothing is printed or written before the last exception can be raised, so a run of the
  function that raises leaves the world as it found it.
\<close>

definition filter_and_save_channels ::
  "env \<Rightarrow> channel list \<Rightarrow> rat \<Rightarrow> world \<Rightarrow> (exn + string) \<times> world" where
  "filter_and_save_channels env all_channel_data max_age_days w =
     (if all_channel_data = [] then (Inr [], emit (Print NoChannelData) w)
      else
        case df_new env all_channel_data max_age_days of
          Inl e \<Rightarrow> (Inl e, w)
        | Inr df \<Rightarrow>
            if df = [] then (Inr [], emit (Print (NoChannelsYounger max_age_days)) w)
            else
              let (now, w1) = utcnow_read env w;
                  date_str = strftime_Ymd now;
                  filename = ''new_youtube_channels_'' @ date_str @ ''.csv'';
                  w2 = emit (ToCsv filename (columns df) (map (map snd) df)) w1;
                  w3 = emit (Print (Saved (length df) filename)) w2
              in (Inr filename, w3))"

section \<open>The entry point: \<^verbatim>\<open>main\<close>\<close>

definition search_queries :: "string list" where
  "search_queries =
     [''first vlog'', ''new channel'', ''hello everyone'', ''channel trailer'',
      ''gameplay episode 1'', ''vlog day 1'', ''first video'']"

definition config_error :: exn where
  "config_error = RuntimeError
     (''YOUTUBE_API_KEY environment variable not set. '' @
      ''Define it in a .env file or set it in your execution environment.'')"

text \<open>
  \<open>getenv_api_key env\<close> is \<^verbatim>\<open>os.getenv("YOUTUBE_API_KEY")\<close> as read after
  \<^verbatim>\<open>load_dotenv()\<close>. The test \<^verbatim>\<open>if not api_key\<close> holds for \<^verbatim>\<open>None\<close> and for the empty
  text. Nothing in \<^verbatim>\<open>main\<close> catches what \<^verbatim>\<open>filter_and_save_channels\<close> raises.
\<close>

definition main :: "env \<Rightarrow> world \<Rightarrow> (exn + unit) \<times> world" where
  "main env w =
     (case getenv_api_key env of
        None \<Rightarrow> (Inl config_error, w)
      | Some api_key \<Rightarrow>
          if api_key = [] then (Inl config_error, w)
          else
            let youtube = build env api_key;
                (all_data, w1) = collect_new_channels env youtube search_queries 24 w;
                (result, w2) = filter_and_save_channels env all_data 30 w1
            in (case result of Inl e \<Rightarrow> Inl e | Inr filename \<Rightarrow> Inr (), w2))"

section \<open>Reading a run\<close>

text \<open>The batches of the \<^verbatim>\<open>channels().list\<close> calls in a trace, in order.\<close>

fun channels_calls :: "event list \<Rightarrow> string list list" where
  "channels_calls [] = []"
| "channels_calls (ChannelsList b # es) = b # channels_calls es"
| "channels_calls (e # es) = channels_calls es"

text \<open>The slices of a list from position \<open>i\<close> on, in steps of fifty.\<close>

definition slices :: "string list \<Rightarrow> nat \<Rightarrow> string list list" where
  "slices ids i =
     map (\<lambda>k. take 50 (drop (i + 50 * k) ids)) [0..<(length ids - i + 49) div 50]"

text \<open>The files written in a trace: name, header and rows of each \<^verbatim>\<open>to_csv\<close>.\<close>

fun csv_writes :: "event list \<Rightarrow> (string \<times> string list \<times> cell list list) list" where
  "csv_writes [] = []"
| "csv_writes (ToCsv name header rows # es) = (name, header, rows) # csv_writes es"
| "csv_writes (e # es) = csv_writes es"

definition csv_headers :: "event list \<Rightarrow> string list list" where
  "csv_headers es = map (\<lambda>(name, header, rows). header) (csv_writes es)"

text \<open>The ten columns of the frame after line 245, in order.\<close>

definition ten_columns :: "string list" where
  "ten_columns =
     [''channel_id'', ''channel_title'', ''published_at'', ''subscriber_count'',
      ''video_count'', ''view_count'', ''data_retrieved_at'', ''published_at_dt'',
      ''data_retrieved_at_dt'', ''channel_age_days'']"


section \<open>Worked runs\<close>

text \<open>
  The runs for the examples that follow the theorems. The clock stands at
  2024-01-31T00:00:00, so that every retrieval stamp is \<^verbatim>\<open>2024-01-31T00:00:00Z\<close>.

  The date parser of the runs does what pandas 2 does on their columns. It takes the
  format of a column from its first text that is not empty: here, whether the seconds
  have a fraction. A text of that shape is read by the table below, which gives the epoch
  nanoseconds of the timestamps of the runs; a text of the other shape, the empty text
  and any other text is a missing value. Every text of the table ends in \<^verbatim>\<open>Z\<close>, so the
  column is time-zone aware as soon as one cell is read, and naive when none is.
\<close>

definition demo_now :: datetime where
  "demo_now = \<lparr>dt_year = 2024, dt_month = 1, dt_day = 31, dt_hour = 0, dt_minute = 0,
                dt_second = 0, dt_microsecond = 0\<rparr>"

definition demo_stamp :: "string \<Rightarrow> int option" where
  "demo_stamp =
     [''2023-12-31T00:00:00Z'' \<mapsto> 1703980800000000000,
      ''2024-01-01T00:00:00Z'' \<mapsto> 1704067200000000000,
      ''2024-01-30T00:00:00Z'' \<mapsto> 1706572800000000000,
      ''2024-01-30T00:00:00.500000Z'' \<mapsto> 1706572800500000000,
      ''2024-01-31T00:00:00Z'' \<mapsto> 1706659200000000000]"

definition cell_text :: "cell \<Rightarrow> string" where
  "cell_text c = (case c of StrV s \<Rightarrow> s | _ \<Rightarrow> [])"

definition has_fraction :: "string \<Rightarrow> bool" where
  "has_fraction s = (CHR ''.'' \<in> set s)"

definition demo_stamps :: "string list \<Rightarrow> int option list" where
  "demo_stamps texts =
     (case find (\<lambda>s. s \<noteq> []) texts of
        None \<Rightarrow> map (\<lambda>s. None) texts
      | Some first \<Rightarrow>
          map (\<lambda>s. if has_fraction s = has_fraction first then demo_stamp s else None) texts)"

definition demo_to_datetime :: "cell list \<Rightarrow> string + dt_column" where
  "demo_to_datetime cells =
     Inr \<lparr>tz_aware = list_ex (\<lambda>s. s \<noteq> None) (demo_stamps (map cell_text cells)),
          stamps = demo_stamps (map cell_text cells)\<rparr>"

text \<open>
  The number parser of the runs reads two numerals and \<^verbatim>\<open>inf\<close>, and an integer as
  itself; every other cell is \<open>NaN\<close>. The two operations on \<^verbatim>\<open>float64\<close> are exact on the
  values of the runs, whole seconds and whole days, which \<^verbatim>\<open>float64\<close> represents.
\<close>

definition demo_number :: "cell \<Rightarrow> number" where
  "demo_number c =
     (case c of
        StrV s \<Rightarrow>
          if s = ''12'' then Num 12 else if s = ''7'' then Num 7
          else if s = ''inf'' then PosInf else NotNum
      | IntV n \<Rightarrow> Num (of_int n)
      | _ \<Rightarrow> NotNum)"

definition found :: "string \<Rightarrow> item" where
  "found cid = Item None (Present [''channelId'' \<mapsto> cid]) Absent"

definition item_a :: item where
  "item_a = Item (Some ''UCa'')
     (Present [''title'' \<mapsto> ''A'', ''publishedAt'' \<mapsto> ''2024-01-01T00:00:00Z''])
     (Present [''subscriberCount'' \<mapsto> ''12'', ''viewCount'' \<mapsto> ''abc''])"

definition item_b :: item where
  "item_b = Item (Some ''UCb'')
     (Present [''title'' \<mapsto> ''B''])
     (Present [''subscriberCount'' \<mapsto> ''7'', ''videoCount'' \<mapsto> ''7'', ''viewCount'' \<mapsto> ''7''])"

definition item_c :: item where
  "item_c = Item (Some ''UCc'')
     (Present [''title'' \<mapsto> ''C'', ''publishedAt'' \<mapsto> ''2023-12-31T00:00:00Z''])
     Absent"

definition demo_client :: client where
  "demo_client =
     \<lparr>search_execute = (\<lambda>q after.
          if q = ''first vlog'' then Inr \<lparr>items = Present [found ''UCa'', found ''UCb'']\<rparr>
          else if q = ''new channel'' then Inl (HttpError ''quotaExceeded'')
          else if q = ''hello everyone'' then
            Inr \<lparr>items = Present [found ''UCb'', found ''UCc'', Item None Absent Absent]\<rparr>
          else Inr \<lparr>items = Absent\<rparr>),
      channels_execute = (\<lambda>ids.
          if ids = ''UCa,UCb,UCc'' then Inr \<lparr>items = Present [item_a, item_b, item_c]\<rparr>
          else Inl (OtherException ''unknown ids''))\<rparr>"

definition demo_env :: env where
  "demo_env =
     \<lparr>getenv_api_key = Some ''key'',
      build = (\<lambda>k. demo_client),
      utcnow = (\<lambda>k. demo_now),
      minus_hours = (\<lambda>d h. d\<lparr>dt_day := dt_day d - nat (h div 24)\<rparr>),
      list_of_set = (\<lambda>S. filter (\<lambda>x. x \<in> S) [''UCa'', ''UCb'', ''UCc'']),
      to_datetime = demo_to_datetime,
      float_seconds = (\<lambda>d. of_int d / 1000000000),
      float_div = (\<lambda>x y. x / y),
      to_numeric = map demo_number,
      int64_cast = (\<lambda>q. - (2 ^ 63))\<rparr>"

definition w0 :: world where
  "w0 = \<lparr>clock = 0, events = []\<rparr>"

text \<open>
  The channel dictionaries of the first run: what \<^verbatim>\<open>get_channel_details\<close> returns for
  the three channels, written out one by one. Channel A is 30 days old, channel B has no
  creation time, channel C is 31 days old.
\<close>

definition demo_data :: "channel list" where
  "demo_data = fst (get_channel_details demo_env demo_client [''UCa'', ''UCb'', ''UCc''] w0)"

definition chan_a :: channel where
  "chan_a = \<lparr>channel_id = Some ''UCa'', channel_title = ''A'',
              published_at = ''2024-01-01T00:00:00Z'',
              subscriber_count = StatStr ''12'', video_count = StatInt 0,
              view_count = StatStr ''abc'',
              data_retrieved_at = ''2024-01-31T00:00:00Z''\<rparr>"

definition chan_b :: channel where
  "chan_b = \<lparr>channel_id = Some ''UCb'', channel_title = ''B'', published_at = [],
              subscriber_count = StatStr ''7'', video_count = StatStr ''7'',
              view_count = StatStr ''7'',
              data_retrieved_at = ''2024-01-31T00:00:00Z''\<rparr>"

definition chan_c :: channel where
  "chan_c = \<lparr>channel_id = Some ''UCc'', channel_title = ''C'',
              published_at = ''2023-12-31T00:00:00Z'', subscriber_count = StatInt 0,
              video_count = StatInt 0, view_count = StatInt 0,
              data_retrieved_at = ''2024-01-31T00:00:00Z''\<rparr>"

text \<open>
  Three more channels, all retrieved at the same time: X and Y were created on the day
  before, Y with a fraction in its seconds; D reports \<^verbatim>\<open>inf\<close> subscribers.
\<close>

definition chan_x :: channel where
  "chan_x = \<lparr>channel_id = Some ''UCx'', channel_title = ''X'',
              published_at = ''2024-01-30T00:00:00Z'',
              subscriber_count = StatStr ''7'', video_count = StatStr ''7'',
              view_count = StatStr ''7'',
              data_retrieved_at = ''2024-01-31T00:00:00Z''\<rparr>"

definition chan_y :: channel where
  "chan_y = \<lparr>channel_id = Some ''UCy'', channel_title = ''Y'',
              published_at = ''2024-01-30T00:00:00.500000Z'',
              subscriber_count = StatStr ''7'', video_count = StatStr ''7'',
              view_count = StatStr ''7'',
              data_retrieved_at = ''2024-01-31T00:00:00Z''\<rparr>"

definition chan_d :: channel where
  "chan_d = \<lparr>channel_id = Some ''UCd'', channel_title = ''D'',
              published_at = ''2024-01-30T00:00:00Z'',
              subscriber_count = StatStr ''inf'', video_count = StatStr ''7'',
              view_count = StatStr ''7'',
              data_retrieved_at = ''2024-01-31T00:00:00Z''\<rparr>"

text \<open>
  A second client, for which one search fails and the others find channel B alone.
\<close>

definition lone_client :: client where
  "lone_client =
     \<lparr>search_execute = (\<lambda>q after.
          if q = ''first vlog'' then Inr \<lparr>items = Present [found ''UCb'']\<rparr>
          else if q = ''new channel'' then Inl (HttpError ''quotaExceeded'')
          else Inr \<lparr>items = Absent\<rparr>),
      channels_execute = (\<lambda>ids.
          if ids = ''UCb'' then Inr \<lparr>items = Present [item_b]\<rparr>
          else Inl (OtherException ''unknown ids''))\<rparr>"

definition lone_env :: env where
  "lone_env = demo_env\<lparr>build := (\<lambda>k. lone_client)\<rparr>"

text \<open>A third run, in which one search finds 120 channels and every detail call fails.\<close>

definition ids120 :: "string list" where
  "ids120 = map (\<lambda>k. ''UC'' @ pad4 k) [0..<120]"

definition bulk_client :: client where
  "bulk_client =
     \<lparr>search_execute = (\<lambda>q after. Inr \<lparr>items = Present (map found ids120)\<rparr>),
      channels_execute = (\<lambda>ids. Inl (HttpError ''quotaExceeded''))\<rparr>"

definition bulk_env :: env where
  "bulk_env =
     demo_env\<lparr>build := (\<lambda>k. bulk_client),
              list_of_set := (\<lambda>S. filter (\<lambda>x. x \<in> S) ids120)\<rparr>"

text \<open>
  The rows that the runs write: of channel A, which is 30 days old, of channel C, 31 days
  old, and of channel X, one day old. An absent count and the count \<^verbatim>\<open>abc\<close> are written
  as 0. \<open>aged_a\<close> is the row of channel A in the frame of line 245, before its counts are
  converted.
\<close>

definition row_a :: row where
  "row_a =
     [(''channel_id'', StrV ''UCa''), (''channel_title'', StrV ''A''),
      (''published_at'', StrV ''2024-01-01T00:00:00Z''), (''subscriber_count'', IntV 12),
      (''video_count'', IntV 0), (''view_count'', IntV 0),
      (''data_retrieved_at'', StrV ''2024-01-31T00:00:00Z''),
      (''published_at_dt'', Timestamp 1704067200000000000),
      (''data_retrieved_at_dt'', Timestamp 1706659200000000000),
      (''channel_age_days'', FloatV 30)]"



definition row_x :: row where
  "row_x =
     [(''channel_id'', StrV ''UCx''), (''channel_title'', StrV ''X''),
      (''published_at'', StrV ''2024-01-30T00:00:00Z''), (''subscriber_count'', IntV 7),
      (''video_count'', IntV 7), (''view_count'', IntV 7),
      (''data_retrieved_at'', StrV ''2024-01-31T00:00:00Z''),
      (''published_at_dt'', Timestamp 1706572800000000000),
      (''data_retrieved_at_dt'', Timestamp 1706659200000000000),
      (''channel_age_days'', FloatV 1)]"


section \<open>Properties\<close>

subsection \<open>Traces and batches\<close>

lemma channels_calls_append:
  "channels_calls (es @ fs) = channels_calls es @ channels_calls fs"
  by (induction es rule: channels_calls.induct) simp_all

lemma csv_writes_append:
  "csv_writes (es @ fs) = csv_writes es @ csv_writes fs"
  by (induction es rule: csv_writes.induct) simp_all

lemma events_emit [simp]: "events (emit e w) = events w @ [e]"
  by (simp add: emit_def)

lemma clock_emit [simp]: "clock (emit e w) = clock w"
  by (simp add: emit_def)

lemma events_search_handler [simp]:
  "channels_calls (events (search_handler q e w)) = channels_calls (events w)"
  "csv_writes (events (search_handler q e w)) = csv_writes (events w)"
  by (simp_all add: search_handler_def channels_calls_append csv_writes_append)

lemma events_details_handler [simp]:
  "channels_calls (events (details_handler e w)) = channels_calls (events w)"
  "csv_writes (events (details_handler e w)) = csv_writes (events w)"
  by (simp_all add: details_handler_def channels_calls_append csv_writes_append)

lemma details_items_events:
  "events (snd (details_items env its data w)) = events w"
  by (induction env its data w rule: details_items.induct)
     (simp_all add: utcnow_read_def Let_def)

lemma get_channel_details_calls:
  "channels_calls (events (snd (get_channel_details env youtube b w))) =
     channels_calls (events w) @ (if b = [] then [] else [b])"
proof -
  have "events (snd (details_items env its [] w1)) = events w1" for its w1
    by (rule details_items_events)
  then have d: "details_items env its [] w1 = (r, w2) \<Longrightarrow> events w2 = events w1" for its w1 r w2
    by (metis snd_conv)
  show ?thesis
    by (auto simp: get_channel_details_def Let_def channels_calls_append
        split: sum.splits entry.splits prod.splits option.splits dest!: d)
qed

lemma n_step:
  assumes "i < (n::nat)"
  shows "(n - i + 49) div 50 = Suc ((n - (i + 50) + 49) div 50)"
proof (cases "i + 50 \<le> n")
  case True
  then have "n - i + 49 = (n - (i + 50) + 49) + 50" by simp
  then show ?thesis by (metis div_add_self2 Suc_eq_plus1 zero_neq_numeral)
next
  case False
  with assms have "n - i + 49 < 100" "50 \<le> n - i + 49" "n - (i + 50) + 49 < 50" by simp_all
  then show ?thesis by simp
qed

lemma slices_step:
  assumes "i < length ids"
  shows "slices ids i = take 50 (drop i ids) # slices ids (i + 50)"
proof -
  let ?m = "(length ids - (i + 50) + 49) div 50"
  have "slices ids i = map (\<lambda>k. take 50 (drop (i + 50 * k) ids)) [0..<Suc ?m]"
    unfolding slices_def n_step [OF assms] ..
  also have "[0..<Suc ?m] = 0 # map Suc [0..<?m]"
    by (simp only: upt_conv_Cons [of 0 "Suc ?m"] zero_less_Suc map_Suc_upt)
  also have "map (\<lambda>k. take 50 (drop (i + 50 * k) ids)) (0 # map Suc [0..<?m]) =
             take 50 (drop i ids) # map (\<lambda>k. take 50 (drop (i + 50 + 50 * k) ids)) [0..<?m]"
    by (simp add: comp_def add.assoc)
  finally show ?thesis by (simp add: slices_def)
qed

lemma slices_done:
  assumes "\<not> i < length ids"
  shows "slices ids i = []"
  using assms by (simp add: slices_def)

lemma enrich_calls:
  "channels_calls (events (snd (enrich env youtube ids i d w))) =
     channels_calls (events w) @ slices ids i"
proof (induction env youtube ids i d w rule: enrich.induct)
  case (1 env youtube ids i d w)
  show ?case
  proof (cases "i < length ids")
    case True
    obtain details w1 where
      g: "get_channel_details env youtube (take 50 (drop i ids)) w = (details, w1)"
      by (cases "get_channel_details env youtube (take 50 (drop i ids)) w")
    have ne: "take 50 (drop i ids) \<noteq> []" using True by simp
    have c1: "channels_calls (events w1) = channels_calls (events w) @ [take 50 (drop i ids)]"
      using get_channel_details_calls [of env youtube "take 50 (drop i ids)" w] g ne by simp
    have ih: "channels_calls
                (events (snd (enrich env youtube ids (i + 50) (d @ details) (emit Sleep w1)))) =
              channels_calls (events (emit Sleep w1)) @ slices ids (i + 50)"
      using "1.IH" [OF True refl g [symmetric] refl] .
    have "enrich env youtube ids i d w =
          enrich env youtube ids (i + 50) (d @ details) (emit Sleep w1)"
      using True g by (subst enrich.simps) simp
    then show ?thesis
      using ih c1 True by (simp add: channels_calls_append slices_step)
  next
    case False
    then show ?thesis
      by (subst enrich.simps) (simp add: slices_done)
  qed
qed

lemma concat_slices: "concat (slices ids i) = drop i ids"
proof (induction "length ids - i" arbitrary: i rule: less_induct)
  case less
  show ?case
  proof (cases "i < length ids")
    case True
    then have "length ids - (i + 50) < length ids - i" by simp
    from less [OF this] have "concat (slices ids (i + 50)) = drop (i + 50) ids" .
    moreover have "take 50 (drop i ids) @ drop (i + 50) ids = drop i ids"
      by (metis add.commute append_take_drop_id drop_drop)
    ultimately show ?thesis using True by (simp add: slices_step)
  next
    case False
    then show ?thesis by (simp add: slices_done)
  qed
qed

lemma length_slices: "length (slices ids 0) = (length ids + 49) div 50"
  by (simp add: slices_def)

lemma slices_bounded:
  assumes "b \<in> set (slices ids i)"
  shows "b \<noteq> [] \<and> length b \<le> 50"
proof -
  from assms have "b \<in> (\<lambda>k. take 50 (drop (i + 50 * k) ids)) ` {0..<(length ids - i + 49) div 50}"
    by (simp add: slices_def)
  then obtain k where k0: "k \<in> {0..<(length ids - i + 49) div 50}"
    and b: "b = take 50 (drop (i + 50 * k) ids)"
    by (rule imageE)
  from k0 have k: "k < (length ids - i + 49) div 50"
    by (simp only: atLeastLessThan_iff)
  from k have "i + 50 * k < length ids" by simp
  with b show ?thesis by simp
qed

lemma slices_120:
  assumes "length ids = 120"
  shows "map length (slices ids 0) = [50, 50, 20]"
proof -
  have "[0..<(3::nat)] = [0, 1, 2]" by (simp add: numeral_3_eq_3 upt_conv_Cons del: upt_Suc)
  then show ?thesis using assms by (simp add: slices_def)
qed

subsection \<open>Discovery\<close>

lemma fst_search_new_videos:
  "fst (search_new_videos youtube q pa w) = fst (search_new_videos youtube q pa w')"
  by (simp add: search_new_videos_def Let_def split: sum.splits entry.splits prod.splits
      option.splits)

lemma search_new_videos_calls:
  "channels_calls (events (snd (search_new_videos youtube q pa w))) = channels_calls (events w)"
  by (simp add: search_new_videos_def Let_def channels_calls_append
      split: sum.splits entry.splits prod.splits option.splits)

lemma discover_fst:
  "fst (discover youtube pa qs S w) =
     S \<union> (\<Union>q\<in>set qs. set (fst (search_new_videos youtube q pa w')))"
proof (induction qs arbitrary: S w)
  case Nil
  show ?case by simp
next
  case (Cons q qs)
  obtain ids w1 where s: "search_new_videos youtube q pa w = (ids, w1)"
    by (cases "search_new_videos youtube q pa w")
  have "ids = fst (search_new_videos youtube q pa w')"
    using s fst_search_new_videos [of youtube q pa w w'] by simp
  then show ?case
    using s Cons.IH [of "S \<union> set ids" "emit Sleep w1"] by (simp add: Un_assoc)
qed

lemma discover_calls:
  "channels_calls (events (snd (discover youtube pa qs S w))) = channels_calls (events w)"
proof (induction qs arbitrary: S w)
  case Nil
  show ?case by simp
next
  case (Cons q qs)
  obtain ids w1 where s: "search_new_videos youtube q pa w = (ids, w1)"
    by (cases "search_new_videos youtube q pa w")
  have "channels_calls (events w1) = channels_calls (events w)"
    using search_new_videos_calls [of youtube q pa w] s by simp
  then show ?case
    using s Cons.IH [of "S \<union> set ids" "emit Sleep w1"] by (simp add: channels_calls_append)
qed

lemma discovery_calls:
  "channels_calls (events (snd (discovery env youtube qs wh w))) = channels_calls (events w)"
  by (simp add: discovery_def utcnow_read_def Let_def discover_calls)

lemma collect_calls:
  "channels_calls (events (snd (collect_new_channels env youtube qs wh w))) =
     channels_calls (events w) @
     slices (list_of_set env (fst (discovery env youtube qs wh w))) 0"
  by (simp add: collect_new_channels_def Let_def split_beta enrich_calls discovery_calls)

subsection \<open>No file but by the writer\<close>

lemma search_new_videos_csv:
  "csv_writes (events (snd (search_new_videos youtube q pa w))) = csv_writes (events w)"
  by (simp add: search_new_videos_def Let_def csv_writes_append
      split: sum.splits entry.splits prod.splits option.splits)

lemma discover_csv:
  "csv_writes (events (snd (discover youtube pa qs S w))) = csv_writes (events w)"
proof (induction qs arbitrary: S w)
  case Nil
  show ?case by simp
next
  case (Cons q qs)
  obtain ids w1 where s: "search_new_videos youtube q pa w = (ids, w1)"
    by (cases "search_new_videos youtube q pa w")
  have "csv_writes (events w1) = csv_writes (events w)"
    using search_new_videos_csv [of youtube q pa w] s by simp
  then show ?case
    using s Cons.IH [of "S \<union> set ids" "emit Sleep w1"] by (simp add: csv_writes_append)
qed

lemma get_channel_details_csv:
  "csv_writes (events (snd (get_channel_details env youtube b w))) = csv_writes (events w)"
proof -
  have "events (snd (details_items env its [] w1)) = events w1" for its w1
    by (rule details_items_events)
  then have d: "details_items env its [] w1 = (r, w2) \<Longrightarrow> events w2 = events w1" for its w1 r w2
    by (metis snd_conv)
  show ?thesis
    by (auto simp: get_channel_details_def Let_def csv_writes_append
        split: sum.splits entry.splits prod.splits option.splits dest!: d)
qed

lemma enrich_csv:
  "csv_writes (events (snd (enrich env youtube ids i d w))) = csv_writes (events w)"
proof (induction env youtube ids i d w rule: enrich.induct)
  case (1 env youtube ids i d w)
  show ?case
  proof (cases "i < length ids")
    case True
    obtain details w1 where
      g: "get_channel_details env youtube (take 50 (drop i ids)) w = (details, w1)"
      by (cases "get_channel_details env youtube (take 50 (drop i ids)) w")
    have c1: "csv_writes (events w1) = csv_writes (events w)"
      using get_channel_details_csv [of env youtube "take 50 (drop i ids)" w] g by simp
    have ih: "csv_writes
                (events (snd (enrich env youtube ids (i + 50) (d @ details) (emit Sleep w1)))) =
              csv_writes (events (emit Sleep w1))"
      using "1.IH" [OF True refl g [symmetric] refl] .
    have "enrich env youtube ids i d w =
          enrich env youtube ids (i + 50) (d @ details) (emit Sleep w1)"
      using True g by (subst enrich.simps) simp
    then show ?thesis
      using ih c1 by (simp add: csv_writes_append)
  next
    case False
    then show ?thesis
      by (subst enrich.simps) simp
  qed
qed

lemma collect_csv:
  "csv_writes (events (snd (collect_new_channels env youtube qs wh w))) = csv_writes (events w)"
  by (simp add: collect_new_channels_def discovery_def utcnow_read_def Let_def split_beta
      enrich_csv discover_csv)

subsection \<open>Rows and columns\<close>

lemma length_fit [simp]: "length (fit d n xs) = n"
  by (simp add: fit_def)


lemma length_datetime_cells [simp]: "length (datetime_cells n col) = n"
  by (simp add: datetime_cells_def)

lemma keys_setitem:
  "map fst (setitem k v r) = (if k \<in> set (map fst r) then map fst r else map fst r @ [k])"
  by (induction r) auto

lemma getitem_setitem_same [simp]: "getitem (setitem k v r) k = v"
  by (induction r) (auto simp: getitem_def)

lemma getitem_setitem_other [simp]: "k' \<noteq> k \<Longrightarrow> getitem (setitem k v r) k' = getitem r k'"
  by (induction r) (auto simp: getitem_def)

lemma length_assign [simp]: "length (assign k vs df) = min (length df) (length vs)"
  by (simp add: assign_def)


lemma set_assign:
  "r' \<in> set (assign k vs df) \<Longrightarrow> \<exists>r v. r \<in> set df \<and> r' = setitem k v r"
  by (auto simp: assign_def dest: set_zip_leftD)

lemma keys_assign:
  assumes "\<forall>r \<in> set df. map fst r = ks"
  shows "\<forall>r \<in> set (assign k vs df). map fst r = (if k \<in> set ks then ks else ks @ [k])"
proof
  fix r' assume "r' \<in> set (assign k vs df)"
  then obtain r v where "r \<in> set df" "r' = setitem k v r"
    using set_assign by blast
  with assms show "map fst r' = (if k \<in> set ks then ks else ks @ [k])"
    by (simp add: keys_setitem)
qed

lemma length_DataFrame [simp]: "length (DataFrame data) = length data"
  by (simp add: DataFrame_def)

lemma keys_DataFrame:
  "\<forall>r \<in> set (DataFrame data). map fst r =
     [''channel_id'', ''channel_title'', ''published_at'', ''subscriber_count'',
      ''video_count'', ''view_count'', ''data_retrieved_at'']"
  by (auto simp: DataFrame_def)

subsection \<open>The frame with its age column\<close>

lemma with_age_keys:
  assumes "with_age env (DataFrame data) = Inr df"
  shows "\<forall>r \<in> set df. map fst r = ten_columns"
proof -
  from assms obtain pub ret where
    df: "df = assign ''channel_age_days''
           (map (age_of env)
              (assign ''data_retrieved_at_dt'' (datetime_cells (length data) ret)
                 (assign ''published_at_dt'' (datetime_cells (length data) pub)
                    (DataFrame data))))
           (assign ''data_retrieved_at_dt'' (datetime_cells (length data) ret)
              (assign ''published_at_dt'' (datetime_cells (length data) pub)
                 (DataFrame data)))"
    by (auto simp: with_age_def Let_def split: sum.splits if_splits)
  have 1: "\<forall>r \<in> set (assign ''published_at_dt'' (datetime_cells (length data) pub)
                       (DataFrame data)).
             map fst r =
               [''channel_id'', ''channel_title'', ''published_at'', ''subscriber_count'',
                ''video_count'', ''view_count'', ''data_retrieved_at'', ''published_at_dt'']"
    using keys_assign [OF keys_DataFrame [of data], of "''published_at_dt''"] by simp
  have 2: "\<forall>r \<in> set (assign ''data_retrieved_at_dt'' (datetime_cells (length data) ret)
                       (assign ''published_at_dt'' (datetime_cells (length data) pub)
                          (DataFrame data))).
             map fst r =
               [''channel_id'', ''channel_title'', ''published_at'', ''subscriber_count'',
                ''video_count'', ''view_count'', ''data_retrieved_at'', ''published_at_dt'',
                ''data_retrieved_at_dt'']"
    using keys_assign [OF 1, of "''data_retrieved_at_dt''"] by simp
  show ?thesis
    unfolding df using keys_assign [OF 2, of "''channel_age_days''"]
    by (simp add: ten_columns_def)
qed

lemma convert_columns_keys:
  assumes "convert_columns env cols df = Inr df'"
    and "\<forall>r \<in> set df. map fst r = ks"
    and "set cols \<subseteq> set ks"
  shows "\<forall>r \<in> set df'. map fst r = ks"
  using assms
proof (induction env cols df rule: convert_columns.induct)
  case (1 env df)
  then show ?case by simp
next
  case (2 env col cols df)
  from "2.prems"(1) obtain vs where
    vs: "to_int_column env (column col df) = Inr vs"
    and rest: "convert_columns env cols (assign col vs df) = Inr df'"
    by (auto split: sum.splits)
  have "\<forall>r \<in> set (assign col vs df). map fst r = ks"
    using keys_assign [OF "2.prems"(2), of col vs] "2.prems"(3) by simp
  then show ?case
    using "2.IH" [OF vs rest] "2.prems"(3) by simp
qed

lemma df_new_keys:
  assumes "df_new env data m = Inr df"
  shows "\<forall>r \<in> set df. map fst r = ten_columns"
proof -
  from assms obtain df3 where
    a: "with_age env (DataFrame data) = Inr df3"
    and c: "convert_columns env count_columns
              (filter (\<lambda>r. le_cell (getitem r ''channel_age_days'') m) df3) = Inr df"
    by (auto simp: df_new_def split: sum.splits)
  have "\<forall>r \<in> set (filter (\<lambda>r. le_cell (getitem r ''channel_age_days'') m) df3).
          map fst r = ten_columns"
    using with_age_keys [OF a] by simp
  from convert_columns_keys [OF c this] show ?thesis
    by (simp add: count_columns_def ten_columns_def)
qed

lemma columns_df_new:
  assumes "df_new env data m = Inr df" and "df \<noteq> []"
  shows "columns df = ten_columns"
  using df_new_keys [OF assms(1)] assms(2) by (cases df) (simp_all add: columns_def)

subsection \<open>Saving\<close>

lemma filter_and_save_raises:
  assumes "data \<noteq> []" and "df_new env data m = Inl e"
  shows "filter_and_save_channels env data m w = (Inl e, w)"
  using assms by (simp add: filter_and_save_channels_def)

lemma filter_and_save_nonempty:
  assumes "df_new env data m = Inr df" and "df \<noteq> []" and "data \<noteq> []"
  shows "filter_and_save_channels env data m w =
     (Inr (''new_youtube_channels_'' @ strftime_Ymd (utcnow env (clock w)) @ ''.csv''),
      emit (Print (Saved (length df)
                    (''new_youtube_channels_'' @ strftime_Ymd (utcnow env (clock w)) @ ''.csv'')))
        (emit (ToCsv (''new_youtube_channels_'' @ strftime_Ymd (utcnow env (clock w)) @ ''.csv'')
                 (columns df) (map (map snd) df))
           (w\<lparr>clock := Suc (clock w)\<rparr>)))"
  using assms by (simp add: filter_and_save_channels_def Let_def utcnow_read_def)

lemma length_strftime_Ymd: "length (strftime_Ymd d) = 10"
  by (simp add: strftime_Ymd_def pad4_def pad2_def)

subsection \<open>What the filter can raise\<close>

lemma all_cells_Inl:
  "all_cells xs = Inl e \<Longrightarrow> Inl e \<in> set xs"
  by (induction xs rule: all_cells.induct) (auto split: sum.splits)

lemma astype_int64_Inl:
  "astype_int64 env v = Inl e \<Longrightarrow> e = non_finite"
  by (auto simp: astype_int64_def split: number.splits)

lemma to_int_column_Inl:
  "to_int_column env cs = Inl e \<Longrightarrow> e = non_finite"
  by (auto simp: to_int_column_def dest!: all_cells_Inl astype_int64_Inl [OF sym])

lemma convert_columns_Inl:
  "convert_columns env cols df = Inl e \<Longrightarrow> e = non_finite"
  by (induction env cols df rule: convert_columns.induct)
     (auto split: sum.splits dest: to_int_column_Inl)

lemma with_age_Inl:
  "with_age env df = Inl e \<Longrightarrow> (\<exists>msg. e = ValueError msg) \<or> e = tz_mismatch"
  by (auto simp: with_age_def Let_def split: sum.splits if_splits)

lemma df_new_Inl:
  "df_new env data m = Inl e \<Longrightarrow>
     (\<exists>msg. e = ValueError msg) \<or> e = tz_mismatch \<or> e = non_finite"
  by (auto simp: df_new_def split: sum.splits dest: with_age_Inl convert_columns_Inl)

lemma df_new_not_config_error: "df_new env data m \<noteq> Inl config_error"
  using df_new_Inl [of env data m config_error]
  by (auto simp: config_error_def tz_mismatch_def non_finite_def)

subsection \<open>How many rows\<close>

lemma with_age_length:
  "with_age env (DataFrame data) = Inr df \<Longrightarrow> length df = length data"
  by (auto simp: with_age_def Let_def split: sum.splits if_splits)

lemma convert_columns_length:
  "convert_columns env cols df = Inr df' \<Longrightarrow> length df' \<le> length df"
proof (induction env cols df rule: convert_columns.induct)
  case (1 env df)
  then show ?case by simp
next
  case (2 env col cols df)
  from "2.prems" obtain vs where
    vs: "to_int_column env (column col df) = Inr vs"
    and rest: "convert_columns env cols (assign col vs df) = Inr df'"
    by (auto split: sum.splits)
  from "2.IH" [OF vs rest] show ?case by simp
qed

lemma df_new_length:
  assumes "df_new env data m = Inr df"
  shows "length df \<le> length data"
proof -
  from assms obtain df3 where
    a: "with_age env (DataFrame data) = Inr df3"
    and c: "convert_columns env count_columns
              (filter (\<lambda>r. le_cell (getitem r ''channel_age_days'') m) df3) = Inr df"
    by (auto simp: df_new_def split: sum.splits)
  have "length (filter (\<lambda>r. le_cell (getitem r ''channel_age_days'') m) df3) \<le> length df3"
    by simp
  with convert_columns_length [OF c] with_age_length [OF a] show ?thesis by simp
qed

lemma df_new_nonempty_data:
  assumes "df_new env data m = Inr df" and "df \<noteq> []"
  shows "data \<noteq> []"
  using df_new_length [OF assms(1)] assms(2) by auto

subsection \<open>The writer\<close>

lemma filter_and_save_csv:
  assumes "df_new env data m = Inr df" and "df \<noteq> []"
  shows "csv_writes (events (snd (filter_and_save_channels env data m w))) =
     csv_writes (events w) @
     [(''new_youtube_channels_'' @ strftime_Ymd (utcnow env (clock w)) @ ''.csv'',
       ten_columns, map (map snd) df)]"
  using filter_and_save_nonempty [OF assms df_new_nonempty_data [OF assms], of w]
    columns_df_new [OF assms]
  by (simp add: csv_writes_append)

subsection \<open>The entry point\<close>

lemma main_absent:
  assumes "getenv_api_key env = None \<or> getenv_api_key env = Some []"
  shows "main env w = (Inl config_error, w)"
  using assms by (auto simp: main_def)

lemma main_present:
  assumes "getenv_api_key env = Some k" and "k \<noteq> []"
  shows "fst (main env w) =
     (case fst (filter_and_save_channels env
                  (fst (collect_new_channels env (build env k) search_queries 24 w)) 30
                  (snd (collect_new_channels env (build env k) search_queries 24 w))) of
        Inl e \<Rightarrow> Inl e
      | Inr filename \<Rightarrow> Inr ())"
    and "snd (main env w) =
     snd (filter_and_save_channels env
            (fst (collect_new_channels env (build env k) search_queries 24 w)) 30
            (snd (collect_new_channels env (build env k) search_queries 24 w)))"
  using assms by (simp_all add: main_def Let_def split_beta)

lemma filter_and_save_result:
  "fst (filter_and_save_channels env data m w) =
     (if data = [] then Inr []
      else case df_new env data m of
             Inl e \<Rightarrow> Inl e
           | Inr df \<Rightarrow>
               if df = [] then Inr []
               else Inr (''new_youtube_channels_'' @ strftime_Ymd (utcnow env (clock w))
                           @ ''.csv''))"
  by (simp add: filter_and_save_channels_def Let_def utcnow_read_def split: sum.splits)

subsection \<open>The worked runs, evaluated\<close>

lemma demo_details:
  "fst (get_channel_details demo_env demo_client [''UCa'', ''UCb'', ''UCc''] w) =
     [chan_a, chan_b, chan_c]"
  by (simp add: get_channel_details_def demo_client_def demo_env_def
      item_a_def item_b_def item_c_def get_or_def stat_get_def utcnow_read_def Let_def
      isoformat_def strftime_Ymd_def pad2_def pad4_def digit_def demo_now_def
      chan_a_def chan_b_def chan_c_def emit_def malformed_def dict_of_def)

lemma demo_data_eq: "demo_data = [chan_a, chan_b, chan_c]"
  unfolding demo_data_def by (rule demo_details)

lemmas demo_frame_defs =
  df_new_def with_age_def DataFrame_def column_def getitem_def assign_def
  datetime_cells_def fit_def demo_env_def demo_to_datetime_def demo_stamps_def
  demo_stamp_def cell_text_def has_fraction_def age_of_def sub_cell_def total_seconds_def
  div_cell_def le_cell_def count_columns_def to_int_column_def demo_number_def fillna0_def
  astype_int64_def trunc_def stat_cell_def Let_def

lemma demo_df_new_30: "df_new demo_env [chan_a, chan_b, chan_c] 30 = Inr [row_a]"
  by (simp add: demo_frame_defs chan_a_def chan_b_def chan_c_def row_a_def)

lemma demo_df_new_b: "df_new demo_env [chan_b] 30 = Inl tz_mismatch"
  by (simp add: demo_frame_defs chan_b_def)

lemma demo_df_new_d: "df_new demo_env [chan_d] 30 = Inl non_finite"
  by (simp add: demo_frame_defs chan_d_def)

subsection \<open>The dictionaries built from the items\<close>



subsection \<open>The rows that pass the mask\<close>












subsection \<open>More of the worked runs\<close>


lemma demo_df_new_c: "df_new demo_env [chan_c] 30 = Inr []"
  by (simp add: demo_frame_defs chan_c_def)



lemma demo_df_new_ac: "df_new demo_env [chan_a, chan_c] 30 = Inr [row_a]"
  by (simp add: demo_frame_defs chan_a_def chan_c_def row_a_def)

lemma demo_df_new_xy: "df_new demo_env [chan_x, chan_y] 30 = Inr [row_x]"
  by (simp add: demo_frame_defs chan_x_def chan_y_def row_x_def)

lemma demo_parse_empty:
  "to_datetime demo_env [StrV []] = Inr \<lparr>tz_aware = False, stamps = [None]\<rparr>"
  by (simp add: demo_env_def demo_to_datetime_def demo_stamps_def demo_stamp_def cell_text_def
      has_fraction_def)

lemma demo_parse_now:
  "to_datetime demo_env [StrV ''2024-01-31T00:00:00Z''] =
     Inr \<lparr>tz_aware = True, stamps = [Some 1706659200000000000]\<rparr>"
  by (simp add: demo_env_def demo_to_datetime_def demo_stamps_def demo_stamp_def cell_text_def
      has_fraction_def)

lemma demo_numeric_inf: "to_numeric demo_env [StrV ''inf''] = [PosInf]"
  by (simp add: demo_env_def demo_number_def)

lemma demo_strftime: "strftime_Ymd (utcnow demo_env k) = ''2024-01-31''"
  by (simp add: demo_env_def demo_now_def strftime_Ymd_def pad4_def pad2_def digit_def)

lemma demo_search_results:
  "map (\<lambda>q. fst (search_new_videos demo_client q pa w0)) search_queries =
     [[''UCa'', ''UCb''], [], [''UCb'', ''UCc''], [], [], [], []]"
  by (simp add: search_queries_def search_new_videos_def demo_client_def found_def
      malformed_def dict_of_def search_handler_def)

lemma demo_discovered:
  "fst (discover demo_client pa search_queries {} w) = {''UCa'', ''UCb'', ''UCc''}"
  using discover_fst [of demo_client pa search_queries "{}" w w0]
    arg_cong [OF demo_search_results [of pa], of "\<lambda>xs. \<Union> (set ` set xs)"]
  by auto

lemma demo_enumeration:
  "list_of_set demo_env {''UCa'', ''UCb'', ''UCc''} = [''UCa'', ''UCb'', ''UCc'']"
  by (simp add: demo_env_def)

lemma demo_collect:
  "fst (collect_new_channels demo_env demo_client search_queries 24 w0) =
     [chan_a, chan_b, chan_c]"
proof -
  obtain S w2 where d: "discovery demo_env demo_client search_queries 24 w0 = (S, w2)"
    by (cases "discovery demo_env demo_client search_queries 24 w0")
  have "S = fst (discovery demo_env demo_client search_queries 24 w0)"
    using d by simp
  then have S: "S = {''UCa'', ''UCb'', ''UCc''}"
    by (simp add: discovery_def Let_def split_beta demo_discovered)
  obtain details w3 where
    g: "get_channel_details demo_env demo_client [''UCa'', ''UCb'', ''UCc''] w2 = (details, w3)"
    by (cases "get_channel_details demo_env demo_client [''UCa'', ''UCb'', ''UCc''] w2")
  have ds: "details = [chan_a, chan_b, chan_c]"
    using demo_details [of w2] g by simp
  have "fst (enrich demo_env demo_client [''UCa'', ''UCb'', ''UCc''] 0 [] w2) = details"
    using g by (subst enrich.simps, simp, subst enrich.simps, simp)
  then show ?thesis
    using d S ds by (simp add: collect_new_channels_def Let_def demo_enumeration)
qed

lemma lone_search_results:
  "map (\<lambda>q. fst (search_new_videos lone_client q pa w0)) search_queries =
     [[''UCb''], [], [], [], [], [], []]"
  by (simp add: search_queries_def search_new_videos_def lone_client_def found_def
      malformed_def dict_of_def search_handler_def)

lemma lone_discovered:
  "fst (discover lone_client pa search_queries {} w) = {''UCb''}"
  using discover_fst [of lone_client pa search_queries "{}" w w0]
    arg_cong [OF lone_search_results [of pa], of "\<lambda>xs. \<Union> (set ` set xs)"]
  by auto

lemma lone_details:
  "fst (get_channel_details lone_env lone_client [''UCb''] w) = [chan_b]"
  by (simp add: get_channel_details_def lone_client_def lone_env_def demo_env_def
      item_b_def get_or_def stat_get_def utcnow_read_def Let_def
      isoformat_def strftime_Ymd_def pad2_def pad4_def digit_def demo_now_def
      chan_b_def emit_def malformed_def dict_of_def)

lemma lone_collect:
  "fst (collect_new_channels lone_env lone_client search_queries 24 w0) = [chan_b]"
proof -
  obtain S w2 where d: "discovery lone_env lone_client search_queries 24 w0 = (S, w2)"
    by (cases "discovery lone_env lone_client search_queries 24 w0")
  have "S = fst (discovery lone_env lone_client search_queries 24 w0)"
    using d by simp
  then have S: "S = {''UCb''}"
    by (simp add: discovery_def Let_def split_beta lone_discovered)
  obtain details w3 where
    g: "get_channel_details lone_env lone_client [''UCb''] w2 = (details, w3)"
    by (cases "get_channel_details lone_env lone_client [''UCb''] w2")
  have ds: "details = [chan_b]"
    using lone_details [of w2] g by simp
  have e: "list_of_set lone_env {''UCb''} = [''UCb'']"
    by (simp add: lone_env_def demo_env_def)
  have "fst (enrich lone_env lone_client [''UCb''] 0 [] w2) = details"
    using g by (subst enrich.simps, simp, subst enrich.simps, simp)
  then show ?thesis
    using d S ds by (simp add: collect_new_channels_def Let_def e)
qed

lemma lone_df_new: "df_new lone_env [chan_b] 30 = Inl tz_mismatch"
  by (simp add: demo_frame_defs lone_env_def chan_b_def)

lemma lone_key:
  "getenv_api_key lone_env = Some ''key''" "build lone_env ''key'' = lone_client"
  by (simp_all add: lone_env_def demo_env_def)

lemma demo_key:
  "getenv_api_key demo_env = Some ''key''" "build demo_env ''key'' = demo_client"
  by (simp_all add: demo_env_def)

lemma lone_main:
  "fst (main lone_env w0) = Inl tz_mismatch"
  "csv_writes (events (snd (main lone_env w0))) = []"
proof -
  have k: "getenv_api_key lone_env = Some ''key''" "''key'' \<noteq> []"
    by (simp_all add: lone_key)
  let ?w = "snd (collect_new_channels lone_env lone_client search_queries 24 w0)"
  have f: "filter_and_save_channels lone_env [chan_b] 30 ?w = (Inl tz_mismatch, ?w)"
    by (rule filter_and_save_raises) (simp_all add: lone_df_new)
  show "fst (main lone_env w0) = Inl tz_mismatch"
    using main_present(1) [OF k, of w0] by (simp add: lone_key lone_collect f)
  have e: "csv_writes (events w0) = []" by (simp add: w0_def)
  have "csv_writes (events ?w) = csv_writes (events w0)"
    by (rule collect_csv)
  then show "csv_writes (events (snd (main lone_env w0))) = []"
    using main_present(2) [OF k, of w0] by (simp add: lone_key lone_collect f e)
qed

lemma demo_main:
  "fst (main demo_env w0) = Inr ()"
  "length (csv_writes (events (snd (main demo_env w0)))) = 1"
proof -
  have k: "getenv_api_key demo_env = Some ''key''" "''key'' \<noteq> []"
    by (simp_all add: demo_key)
  let ?w = "snd (collect_new_channels demo_env demo_client search_queries 24 w0)"
  show "fst (main demo_env w0) = Inr ()"
    using main_present(1) [OF k, of w0]
    by (simp add: demo_key demo_collect filter_and_save_result demo_df_new_30)
  have n: "[row_a] \<noteq> []" by simp
  have e: "csv_writes (events w0) = []" by (simp add: w0_def)
  have "csv_writes (events ?w) = csv_writes (events w0)"
    by (rule collect_csv)
  then show "length (csv_writes (events (snd (main demo_env w0)))) = 1"
    using main_present(2) [OF k, of w0] filter_and_save_csv [OF demo_df_new_30 n, of ?w]
    by (simp add: demo_key demo_collect e)
qed

subsection \<open>The third and the fourth run\<close>

lemma search_items_found:
  "\<forall>x \<in> set xs. x \<noteq> [] \<Longrightarrow> search_items (map found xs) acc = (None, acc @ xs)"
  by (induction xs arbitrary: acc) (simp_all add: found_def malformed_def dict_of_def)

lemma ids120_nonempty: "\<forall>x \<in> set ids120. x \<noteq> []"
  by (simp add: ids120_def)

lemma length_ids120: "length ids120 = 120"
  by (simp add: ids120_def)

lemma bulk_discovery:
  "fst (discovery bulk_env bulk_client [''first vlog''] 24 w0) = set ids120"
  by (simp add: discovery_def utcnow_read_def Let_def split_beta search_new_videos_def
      bulk_client_def search_items_found ids120_nonempty)

lemma bulk_ids:
  "list_of_set bulk_env (fst (discovery bulk_env bulk_client [''first vlog''] 24 w0)) = ids120"
  by (simp add: bulk_discovery) (simp add: bulk_env_def)

lemma distinct_ids120: "distinct ids120"
  unfolding ids120_def by code_simp


section \<open>The claims\<close>

text \<open>
  Claim C1, where the script departs from it. Channels X and Y were both created one day
  before they were retrieved; the creation time of Y has a fraction in its seconds, that
  of X has none. Each of the two texts is read as a timestamp when it is a column of its
  own. In the column that holds both, pandas takes the format from the text of X and
  reads the text of Y as a missing value: the age of Y is \<open>NaN\<close>, the mask of line 247
  drops Y, and the file that \<^verbatim>\<open>filter_and_save_channels\<close> writes at the threshold of 30
  days holds the row of X alone, although Y is one day old. On a column of one format the
  mask is as claimed: of channels A and C, 30 and 31 days old, A is kept and C is dropped.
\<close>

theorem mixed_timestamp_formats:
  "to_datetime demo_env [StrV (published_at chan_x)] =
     Inr \<lparr>tz_aware = True, stamps = [Some 1706572800000000000]\<rparr>
   \<and> to_datetime demo_env [StrV (published_at chan_y)] =
     Inr \<lparr>tz_aware = True, stamps = [Some 1706572800500000000]\<rparr>
   \<and> to_datetime demo_env [StrV (published_at chan_x), StrV (published_at chan_y)] =
     Inr \<lparr>tz_aware = True, stamps = [Some 1706572800000000000, None]\<rparr>
   \<and> df_new demo_env [chan_a, chan_c] 30 = Inr [row_a]
   \<and> df_new demo_env [chan_x, chan_y] 30 = Inr [row_x]
   \<and> csv_writes (events (snd (filter_and_save_channels demo_env [chan_x, chan_y] 30 w0))) =
       [(''new_youtube_channels_2024-01-31.csv'',
         [''channel_id'', ''channel_title'', ''published_at'', ''subscriber_count'',
          ''video_count'', ''view_count'', ''data_retrieved_at'', ''published_at_dt'',
          ''data_retrieved_at_dt'', ''channel_age_days''],
         [[StrV ''UCx'', StrV ''X'', StrV ''2024-01-30T00:00:00Z'', IntV 7, IntV 7, IntV 7,
           StrV ''2024-01-31T00:00:00Z'', Timestamp 1706572800000000000,
           Timestamp 1706659200000000000, FloatV 1]])]"
proof -
  have p: "to_datetime demo_env [StrV (published_at chan_x)] =
     Inr \<lparr>tz_aware = True, stamps = [Some 1706572800000000000]\<rparr>"
    "to_datetime demo_env [StrV (published_at chan_y)] =
     Inr \<lparr>tz_aware = True, stamps = [Some 1706572800500000000]\<rparr>"
    "to_datetime demo_env [StrV (published_at chan_x), StrV (published_at chan_y)] =
     Inr \<lparr>tz_aware = True, stamps = [Some 1706572800000000000, None]\<rparr>"
    by (simp_all add: chan_x_def chan_y_def demo_env_def demo_to_datetime_def demo_stamps_def
        demo_stamp_def cell_text_def has_fraction_def)
  have n: "[row_x] \<noteq> []" by simp
  have e: "csv_writes (events w0) = []" by (simp add: w0_def)
  have c: "csv_writes (events (snd (filter_and_save_channels demo_env [chan_x, chan_y] 30 w0))) =
       [(''new_youtube_channels_2024-01-31.csv'', ten_columns, map (map snd) [row_x])]"
    using filter_and_save_csv [OF demo_df_new_xy n, of w0] e by (simp add: demo_strftime)
  show ?thesis
    using p c by (simp add: demo_df_new_ac demo_df_new_xy ten_columns_def row_x_def)
qed

text \<open>
  Claim C2. Let \<open>ids\<close> be the enumeration of the deduplicated ID set that
  \<^verbatim>\<open>collect_new_channels\<close> passes to its enrichment loop. The loop issues one
  \<^verbatim>\<open>channels().list\<close> call per slice of fifty: the batches of the new calls in the trace
  are exactly the slices \<open>ids[0:50], ids[50:100], ...\<close>; they concatenate to \<open>ids\<close>, there
  are \<open>ceil(n / 50)\<close> of them for \<open>n = length ids\<close>, each is non-empty and holds at most
  fifty IDs; for \<open>n = 120\<close> the sizes are 50, 50 and 20. Where the enumeration lists
  every member of the set once, as \<^verbatim>\<open>list(s)\<close> does, \<open>n\<close> is the size of the set: a set of
  120 IDs is fetched in three calls of 50, 50 and 20.
\<close>

theorem enrichment_batches:
  "let ids = list_of_set env (fst (discovery env youtube qs wh w));
       calls = slices ids 0
   in channels_calls (events (snd (collect_new_channels env youtube qs wh w))) =
        channels_calls (events w) @ calls
      \<and> concat calls = ids
      \<and> length calls = (length ids + 49) div 50
      \<and> (\<forall>b \<in> set calls. b \<noteq> [] \<and> length b \<le> 50)
      \<and> (length ids = 120 \<longrightarrow> map length calls = [50, 50, 20])
      \<and> (distinct ids \<and> set ids = fst (discovery env youtube qs wh w) \<longrightarrow>
           length calls = (card (fst (discovery env youtube qs wh w)) + 49) div 50
           \<and> (card (fst (discovery env youtube qs wh w)) = 120 \<longrightarrow>
                map length calls = [50, 50, 20]))"
proof -
  let ?ids = "list_of_set env (fst (discovery env youtube qs wh w))"
  have 1: "channels_calls (events (snd (collect_new_channels env youtube qs wh w))) =
        channels_calls (events w) @ slices ?ids 0"
    by (rule collect_calls)
  have 2: "concat (slices ?ids 0) = ?ids"
    using concat_slices [of ?ids 0] by simp
  have 3: "length (slices ?ids 0) = (length ?ids + 49) div 50"
    by (rule length_slices)
  have 4: "\<forall>b \<in> set (slices ?ids 0). b \<noteq> [] \<and> length b \<le> 50"
    using slices_bounded by blast
  have 5: "length ?ids = 120 \<longrightarrow> map length (slices ?ids 0) = [50, 50, 20]"
    using slices_120 by blast
  have 6: "distinct ?ids \<and> set ?ids = fst (discovery env youtube qs wh w) \<longrightarrow>
           length (slices ?ids 0) = (card (fst (discovery env youtube qs wh w)) + 49) div 50
           \<and> (card (fst (discovery env youtube qs wh w)) = 120 \<longrightarrow>
                map length (slices ?ids 0) = [50, 50, 20])"
    using 3 5 distinct_card [of ?ids] by auto
  show ?thesis
    unfolding Let_def using 1 2 3 4 5 6 by blast
qed

text \<open>
  The third worked run: one search finds 120 channels, and the three detail calls carry
  50, 50 and 20 IDs.
\<close>

theorem enrichment_batches_witness:
  "card (fst (discovery bulk_env bulk_client [''first vlog''] 24 w0)) = 120
   \<and> length (list_of_set bulk_env
        (fst (discovery bulk_env bulk_client [''first vlog''] 24 w0))) = 120
   \<and> map length
       (channels_calls
          (events (snd (collect_new_channels bulk_env bulk_client [''first vlog''] 24 w0)))) =
     [50, 50, 20]"
proof -
  have e: "channels_calls (events w0) = []"
    by (simp add: w0_def)
  have c: "card (fst (discovery bulk_env bulk_client [''first vlog''] 24 w0)) = 120"
    using distinct_card [OF distinct_ids120] by (simp add: bulk_discovery length_ids120)
  have s: "set (list_of_set bulk_env
             (fst (discovery bulk_env bulk_client [''first vlog''] 24 w0))) =
           fst (discovery bulk_env bulk_client [''first vlog''] 24 w0)"
    by (simp add: bulk_ids) (simp add: bulk_discovery)
  show ?thesis
    using enrichment_batches [of bulk_env bulk_client "[''first vlog'']" 24 w0] c s
    by (simp add: Let_def bulk_ids length_ids120 e distinct_ids120)
qed




text \<open>
  Claim C4. The discovery loop starts from the empty set and adds the IDs of every
  query's result list. The size of the set it ends with is at most the sum of the
  lengths of the per-query result lists, and the two are equal exactly when no ID
  occurs twice in the results, neither in two queries nor twice in one.
\<close>

theorem dedup_size:
  "card (fst (discover youtube pa qs {} w)) \<le>
     (\<Sum>q\<leftarrow>qs. length (fst (search_new_videos youtube q pa w')))
   \<and> (card (fst (discover youtube pa qs {} w)) =
        (\<Sum>q\<leftarrow>qs. length (fst (search_new_videos youtube q pa w')))
      \<longleftrightarrow> distinct (concat (map (\<lambda>q. fst (search_new_videos youtube q pa w')) qs)))"
proof -
  let ?rs = "map (\<lambda>q. fst (search_new_videos youtube q pa w')) qs"
  have S: "fst (discover youtube pa qs {} w) = set (concat ?rs)"
    using discover_fst [of youtube pa qs "{}" w w'] by simp
  have L: "(\<Sum>q\<leftarrow>qs. length (fst (search_new_videos youtube q pa w'))) = length (concat ?rs)"
    by (simp add: length_concat comp_def)
  show ?thesis
    unfolding S L using card_length [of "concat ?rs"] card_distinct [of "concat ?rs"]
      distinct_card [of "concat ?rs"] by blast
qed

text \<open>
  In the first worked run the seven searches return four IDs, one of them twice: the set
  has three members.
\<close>

theorem dedup_size_witness:
  "card (fst (discover demo_client ''2024-01-30T00:00:00Z'' search_queries {} w0)) = 3
   \<and> (\<Sum>q\<leftarrow>search_queries.
         length (fst (search_new_videos demo_client q ''2024-01-30T00:00:00Z'' w0))) = 4"
proof -
  let ?pa = "''2024-01-30T00:00:00Z''"
  have r: "map (\<lambda>q. fst (search_new_videos demo_client q ?pa w0)) search_queries =
     [[''UCa'', ''UCb''], [], [''UCb'', ''UCc''], [], [], [], []]"
    by (rule demo_search_results)
  have s: "(\<Sum>q\<leftarrow>search_queries. length (fst (search_new_videos demo_client q ?pa w0))) = 4"
    using arg_cong [OF r, of "\<lambda>xs. sum_list (map length xs)"] by (simp add: comp_def)
  have d: "\<not> distinct (concat (map (\<lambda>q. fst (search_new_videos demo_client q ?pa w0)) search_queries))"
    unfolding r by simp
  have S: "fst (discover demo_client ?pa search_queries {} w0) = {''UCa'', ''UCb'', ''UCc''}"
    using discover_fst [of demo_client ?pa search_queries "{}" w0 w0]
      arg_cong [OF r, of "\<lambda>xs. \<Union> (set ` set xs)"] by auto
  have c: "card {''UCa'', ''UCb'', ''UCc''} = 3" by simp
  show ?thesis
    using dedup_size [of demo_client ?pa search_queries w0 w0] s d S c by simp
qed

text \<open>
  Claim C5, where the script departs from it. Channel D, one day old, reports the
  subscriber count \<^verbatim>\<open>inf\<close>. pandas reads that text as the infinite float, which
  \<^verbatim>\<open>fillna(0)\<close> leaves in place, and on which \<^verbatim>\<open>astype("int64")\<close> raises
  \<^verbatim>\<open>IntCastingNaNError\<close>: \<^verbatim>\<open>filter_and_save_channels\<close> raises at line 250, and nothing
  is printed or written.
\<close>

theorem infinite_count_raises:
  "subscriber_count chan_d = StatStr ''inf''
   \<and> to_numeric demo_env [StrV ''inf''] = [PosInf]
   \<and> fillna0 PosInf = PosInf
   \<and> astype_int64 demo_env PosInf =
       Inl (IntCastingNaNError ''Cannot convert non-finite values (NA or inf) to integer'')
   \<and> filter_and_save_channels demo_env [chan_d] 30 w0 =
       (Inl (IntCastingNaNError ''Cannot convert non-finite values (NA or inf) to integer''),
        w0)"
proof -
  have f: "filter_and_save_channels demo_env [chan_d] 30 w0 = (Inl non_finite, w0)"
    by (rule filter_and_save_raises) (simp_all add: demo_df_new_d)
  show ?thesis
    using f
    by (simp add: chan_d_def demo_numeric_inf fillna0_def astype_int64_def non_finite_def)
qed

text \<open>
  Claim C6, where the script departs from it. In the run of the second client the search
  for \<^verbatim>\<open>new channel\<close> raises and contributes no ID, and the set of the run is the union of
  the IDs of the other searches, the single channel B: so far as claimed. The details of
  B are fetched, but B has no creation time, so line 245 raises \<^verbatim>\<open>TypeError\<close> in
  \<^verbatim>\<open>filter_and_save_channels\<close>; \<^verbatim>\<open>main\<close> does not catch it, and the run ends with that
  exception and without a file. In the run of the first client, where the same search
  raises and the other searches find channels A, B and C, \<^verbatim>\<open>main\<close> returns normally and
  writes one file.
\<close>

theorem search_failure_run_raises:
  "isl (search_execute lone_client ''new channel'' ''2024-01-30T00:00:00Z'')
   \<and> fst (search_new_videos lone_client ''new channel'' ''2024-01-30T00:00:00Z'' w0) = []
   \<and> fst (discover lone_client ''2024-01-30T00:00:00Z'' search_queries {} w0) = {''UCb''}
   \<and> fst (collect_new_channels lone_env lone_client search_queries 24 w0) = [chan_b]
   \<and> fst (main lone_env w0) =
       Inl (TypeError ''Cannot subtract tz-naive and tz-aware datetime-like objects'')
   \<and> csv_writes (events (snd (main lone_env w0))) = []
   \<and> isl (search_execute demo_client ''new channel'' ''2024-01-30T00:00:00Z'')
   \<and> fst (main demo_env w0) = Inr ()
   \<and> length (csv_writes (events (snd (main demo_env w0)))) = 1"
proof -
  have 1: "isl (search_execute lone_client ''new channel'' ''2024-01-30T00:00:00Z'')"
    "isl (search_execute demo_client ''new channel'' ''2024-01-30T00:00:00Z'')"
    by (simp_all add: lone_client_def demo_client_def)
  have 2: "fst (search_new_videos lone_client ''new channel'' ''2024-01-30T00:00:00Z'' w0) = []"
    by (simp add: search_new_videos_def lone_client_def)
  show ?thesis
    using 1 2 lone_main demo_main
    by (simp add: lone_discovered lone_collect tz_mismatch_def)
qed

text \<open>
  Claim C7, where the script departs from it. The only record of the input, channel B,
  has the empty creation time, so no record can survive the age filter. The column of
  creation times then has no parsed cell and is time-zone naive, the column of retrieval
  times is time-zone aware, and the subtraction of line 245 raises \<^verbatim>\<open>TypeError\<close>:
  \<^verbatim>\<open>filter_and_save_channels\<close> returns nothing and prints nothing. On the input that
  holds only channel C, which is too old, and on the empty input, the function prints its
  message, writes no file and returns the empty string, as claimed.
\<close>

theorem sole_record_without_timestamp_raises:
  "published_at chan_b = []
   \<and> to_datetime demo_env [StrV (published_at chan_b)] =
       Inr \<lparr>tz_aware = False, stamps = [None]\<rparr>
   \<and> to_datetime demo_env [StrV (data_retrieved_at chan_b)] =
       Inr \<lparr>tz_aware = True, stamps = [Some 1706659200000000000]\<rparr>
   \<and> filter_and_save_channels demo_env [chan_b] 30 w0 =
       (Inl (TypeError ''Cannot subtract tz-naive and tz-aware datetime-like objects''), w0)
   \<and> filter_and_save_channels demo_env [chan_c] 30 w0 =
       (Inr [], emit (Print (NoChannelsYounger 30)) w0)
   \<and> filter_and_save_channels demo_env [] 30 w0 = (Inr [], emit (Print NoChannelData) w0)"
proof -
  have f: "filter_and_save_channels demo_env [chan_b] 30 w0 = (Inl tz_mismatch, w0)"
    by (rule filter_and_save_raises) (simp_all add: demo_df_new_b)
  have c: "filter_and_save_channels demo_env [chan_c] 30 w0 =
       (Inr [], emit (Print (NoChannelsYounger 30)) w0)"
    by (simp add: filter_and_save_channels_def demo_df_new_c)
  have e: "filter_and_save_channels demo_env [] 30 w0 = (Inr [], emit (Print NoChannelData) w0)"
    by (simp add: filter_and_save_channels_def)
  have p: "published_at chan_b = []"
    "data_retrieved_at chan_b = ''2024-01-31T00:00:00Z''"
    by (simp_all add: chan_b_def)
  show ?thesis
    using f c e by (simp add: p demo_parse_empty demo_parse_now tz_mismatch_def)
qed

text \<open>
  Claim C8, as the script has it. When lines 240 to 250 raise nothing and at least one
  row survives, the script writes one file, named \<^verbatim>\<open>new_youtube_channels_<YYYY-MM-DD>.csv\<close>
  after the clock's UTC date at that moment (35 characters), and returns that name. The
  header of the file has ten columns: the seven fields of the channel dictionary, then
  the two parsed timestamp columns \<^verbatim>\<open>published_at_dt\<close> and \<^verbatim>\<open>data_retrieved_at_dt\<close>, then
  the computed age column \<^verbatim>\<open>channel_age_days\<close>. The rows are those of the surviving
  frame.
\<close>

theorem csv_name_and_columns:
  assumes "df_new env data m = Inr df" and "df \<noteq> []"
  shows "fst (filter_and_save_channels env data m w) =
           Inr (''new_youtube_channels_'' @ strftime_Ymd (utcnow env (clock w)) @ ''.csv'')
       \<and> length (''new_youtube_channels_'' @ strftime_Ymd (utcnow env (clock w)) @ ''.csv'')
           = 35
       \<and> csv_writes (events (snd (filter_and_save_channels env data m w))) =
           csv_writes (events w) @
           [(''new_youtube_channels_'' @ strftime_Ymd (utcnow env (clock w)) @ ''.csv'',
             [''channel_id'', ''channel_title'', ''published_at'', ''subscriber_count'',
              ''video_count'', ''view_count'', ''data_retrieved_at'', ''published_at_dt'',
              ''data_retrieved_at_dt'', ''channel_age_days''],
             map (map snd) df)]"
  using filter_and_save_csv [OF assms, of w]
    filter_and_save_nonempty [OF assms df_new_nonempty_data [OF assms], of w]
  by (simp add: length_strftime_Ymd ten_columns_def)

text \<open>The file of the first worked run.\<close>

theorem csv_name_and_columns_witness:
  "fst (filter_and_save_channels demo_env demo_data 30 w0) =
     Inr ''new_youtube_channels_2024-01-31.csv''
   \<and> csv_writes (events (snd (filter_and_save_channels demo_env demo_data 30 w0))) =
       [(''new_youtube_channels_2024-01-31.csv'',
         [''channel_id'', ''channel_title'', ''published_at'', ''subscriber_count'',
          ''video_count'', ''view_count'', ''data_retrieved_at'', ''published_at_dt'',
          ''data_retrieved_at_dt'', ''channel_age_days''],
         [[StrV ''UCa'', StrV ''A'', StrV ''2024-01-01T00:00:00Z'', IntV 12, IntV 0, IntV 0,
           StrV ''2024-01-31T00:00:00Z'', Timestamp 1704067200000000000,
           Timestamp 1706659200000000000, FloatV 30]])]"
proof -
  have d: "df_new demo_env demo_data 30 = Inr [row_a]"
    by (simp add: demo_data_eq demo_df_new_30)
  have n: "[row_a] \<noteq> []" by simp
  have e: "csv_writes (events w0) = []" by (simp add: w0_def)
  show ?thesis
    using csv_name_and_columns [OF d n, of w0]
    by (simp add: demo_strftime e row_a_def)
qed

text \<open>
  Claim C8 as the specification states it, that the columns are the seven record fields
  and the single age column, fails on the first worked run: the header written there has
  the two parsed timestamp columns as well.
\<close>

theorem csv_columns_counterexample:
  "csv_headers (events (snd (filter_and_save_channels demo_env demo_data 30 w0))) =
     [[''channel_id'', ''channel_title'', ''published_at'', ''subscriber_count'',
       ''video_count'', ''view_count'', ''data_retrieved_at'', ''published_at_dt'',
       ''data_retrieved_at_dt'', ''channel_age_days'']]
   \<and> csv_headers (events (snd (filter_and_save_channels demo_env demo_data 30 w0))) \<noteq>
     [[''channel_id'', ''channel_title'', ''published_at'', ''subscriber_count'',
       ''video_count'', ''view_count'', ''data_retrieved_at'', ''channel_age_days'']]"
proof -
  have d: "df_new demo_env demo_data 30 = Inr [row_a]"
    by (simp add: demo_data_eq demo_df_new_30)
  have n: "[row_a] \<noteq> []" by simp
  have e: "csv_writes (events w0) = []" by (simp add: w0_def)
  show ?thesis
    using filter_and_save_csv [OF d n, of w0] e
    by (simp add: csv_headers_def ten_columns_def)
qed

text \<open>
  Claim C9. When the credential is absent, \<^verbatim>\<open>main\<close> raises its \<^verbatim>\<open>RuntimeError\<close> and the
  world is as it was: no search, no detail call, no print, no file. The script counts the
  variable as absent when it is unset and when it is set to the empty text, as its test
  \<^verbatim>\<open>if not api_key\<close> does. With any other value of the variable \<^verbatim>\<open>main\<close> does not raise
  the configuration error, whatever the client answers; if it raises at all, it raises
  what lines 240 to 250 of \<^verbatim>\<open>filter_and_save_channels\<close> raise on the collected channels.
\<close>

theorem missing_credential_is_fatal:
  "(getenv_api_key env = None \<longrightarrow> main env w = (Inl config_error, w))
   \<and> (getenv_api_key env = Some [] \<longrightarrow> main env w = (Inl config_error, w))
   \<and> (getenv_api_key env = Some k \<and> k \<noteq> [] \<longrightarrow>
        fst (main env w) \<noteq> Inl config_error
        \<and> (fst (main env w) \<noteq> Inr () \<longrightarrow>
             (\<exists>e. df_new env
                    (fst (collect_new_channels env (build env k) search_queries 24 w)) 30
                    = Inl e
                  \<and> fst (main env w) = Inl e)))"
proof -
  have 1: "getenv_api_key env = None \<longrightarrow> main env w = (Inl config_error, w)"
    using main_absent by blast
  have 2: "getenv_api_key env = Some [] \<longrightarrow> main env w = (Inl config_error, w)"
    using main_absent by blast
  have 3: "getenv_api_key env = Some k \<and> k \<noteq> [] \<longrightarrow>
        fst (main env w) \<noteq> Inl config_error
        \<and> (fst (main env w) \<noteq> Inr () \<longrightarrow>
             (\<exists>e. df_new env
                    (fst (collect_new_channels env (build env k) search_queries 24 w)) 30
                    = Inl e
                  \<and> fst (main env w) = Inl e))"
    using df_new_not_config_error
      [of env "fst (collect_new_channels env (build env k) search_queries 24 w)" 30]
    by (auto simp: main_present(1) filter_and_save_result split: sum.splits if_splits)
  from 1 2 3 show ?thesis by blast
qed

text \<open>
  The first worked environment without the variable and with the empty variable; the
  first and the second as they are, the second being a run that raises.
\<close>

theorem missing_credential_is_fatal_witness:
  "main (demo_env\<lparr>getenv_api_key := None\<rparr>) w0 = (Inl config_error, w0)
   \<and> main (demo_env\<lparr>getenv_api_key := Some []\<rparr>) w0 = (Inl config_error, w0)
   \<and> fst (main demo_env w0) \<noteq> Inl config_error
   \<and> fst (main lone_env w0) \<noteq> Inl config_error
   \<and> (\<exists>e. df_new lone_env [chan_b] 30 = Inl e \<and> fst (main lone_env w0) = Inl e)"
proof -
  have n: "fst (main lone_env w0) \<noteq> Inr ()"
    by (simp add: lone_main(1))
  show ?thesis
    using missing_credential_is_fatal
        [where env = "demo_env\<lparr>getenv_api_key := None\<rparr>" and w = w0]
      missing_credential_is_fatal
        [where env = "demo_env\<lparr>getenv_api_key := Some []\<rparr>" and w = w0]
      missing_credential_is_fatal [where env = demo_env and k = "''key''" and w = w0]
      missing_credential_is_fatal [where env = lone_env and k = "''key''" and w = w0]
      n
    by (simp add: demo_key lone_key lone_collect)
qed

text \<open>
  Claim C10. For the empty list of channel IDs \<^verbatim>\<open>get_channel_details\<close> returns the empty
  list and leaves the world as it found it: no call of the client, no print, no reading
  of the clock. This holds whatever the client would have answered.
\<close>

theorem get_channel_details_empty:
  "get_channel_details env youtube [] w = ([], w)"
  by (simp add: get_channel_details_def)

end
